theory Spec2Isabelle
  imports Main "HOL-Library.Word"
begin

unbundle bit_operations_syntax

section \<open>Errors, contexts and the select statement\<close>

text \<open>
  The package wraps blocking calls of the Go standard library (\<open>os\<close>, \<open>io\<close>,
  \<open>net/url\<close>, \<open>fsnotify\<close>) so that they honour a \<open>context.Context\<close>. The
  library is not part of the package: its calls are modelled here by a small file system
  (regular files and directories under path names) and, for the watcher, by an
  environment of answers. Errors are values, as in Go.
\<close>

type_synonym byte = "8 word"

datatype error =
  Canceled | DeadlineExceeded | EOF | ENOENT | ENOTDIR | EISDIR | EBADF | EINVAL | ESPIPE
  | OtherError string

text \<open>
  A context is what the package uses of it: the instant at which the channel \<open>ctx.Done()\<close>
  is closed (\<open>None\<close>: never) and the error \<open>ctx.Err()\<close> reports from then on.
\<close>

record Context =
  done_at :: "nat option"
  ctx_Err :: error

definition Background :: Context where
  "Background = \<lparr>done_at = None, ctx_Err = Canceled\<rparr>"

text \<open>
  Every bridged call starts a goroutine for the blocking call and then executes one
  \<open>select\<close> over \<open>ctx.Done()\<close> and the goroutine's buffered result channel. What the
  scheduler decides is a parameter of the model: the instant \<open>op_at\<close> at which the
  goroutine delivers its result (\<open>None\<close>: the call blocks for ever), the instant
  \<open>sel_at\<close> at which the caller reaches the \<open>select\<close>, and the branch \<open>pick\<close> that Go's
  pseudo-random choice takes when both channels can proceed. All instants are on one clock.
\<close>

datatype branch = CtxDone | OpDone

record sched =
  op_at :: "nat option"
  sel_at :: nat
  pick :: branch

definition ready :: "nat option \<Rightarrow> nat \<Rightarrow> bool" where
  "ready t now = (case t of None \<Rightarrow> False | Some x \<Rightarrow> x \<le> now)"

text \<open>
  The \<open>select\<close> statement: among the communications that can proceed when it is evaluated
  one is chosen at random; if none can, it blocks until the first one can. \<open>None\<close> means
  that it blocks for ever.
\<close>

definition select_ctx :: "Context \<Rightarrow> sched \<Rightarrow> branch option" where
  "select_ctx ctx sch =
     (if ready (done_at ctx) (sel_at sch) \<and> ready (op_at sch) (sel_at sch) then Some (pick sch)
      else if ready (done_at ctx) (sel_at sch) then Some CtxDone
      else if ready (op_at sch) (sel_at sch) then Some OpDone
      else (case done_at ctx of
              None \<Rightarrow> (case op_at sch of None \<Rightarrow> None | Some t \<Rightarrow> Some OpDone)
            | Some d \<Rightarrow>
                (case op_at sch of
                   None \<Rightarrow> Some CtxDone
                 | Some t \<Rightarrow>
                     if d < t then Some CtxDone
                     else if t < d then Some OpDone
                     else Some (pick sch))))"

section \<open>The file system behind package os\<close>

text \<open>
  What a path names: a regular file that stores its bytes (a file on a disk, not one of
  \<open>/proc\<close> or \<open>/sys\<close>), a directory, the null device (\<open>/dev/null\<close>: it takes every
  write and is always at its end) or a FIFO whose other end is outside (it takes every
  write; a read finds it empty and closed).
\<close>

datatype node = File "byte list" | Dir | DevNull | Fifo

text \<open>
  \<open>nodes\<close> maps a path name to what is stored there; \<open>denied\<close> gives the error with which
  the system refuses to open or create a name (permissions and the like); \<open>path_Dir\<close> is
  the library function \<open>path.Dir\<close>; \<open>max_rw\<close> is the greatest number of bytes that one
  read transfers (\<open>0x7ffff000\<close> for one \<open>read(2)\<close> on Linux, \<open>1 << 30\<close> where package
  \<open>os\<close> cuts the buffer itself); \<open>max_offset\<close> is the greatest offset the file system
  accepts (\<open>0xFFFFFFFF000\<close> on ext4 with blocks of 4096 bytes, at most \<open>2^63 - 1\<close>).
\<close>

record os =
  nodes :: "string \<rightharpoonup> node"
  denied :: "string \<Rightarrow> error option"
  path_Dir :: "string \<Rightarrow> string"
  max_rw :: nat
  max_offset :: nat

text \<open>
  An open \<open>*os.File\<close>: the name it was opened under, its offset and its open mode. The
  file is found through its name: nothing in the model removes or renames a file.
\<close>

record os_file =
  fname :: string
  pos :: nat
  wronly :: bool
  append :: bool

definition O_WRONLY :: "32 word" where "O_WRONLY = 0x1"
definition O_CREATE :: "32 word" where "O_CREATE = 0x40"
definition O_TRUNC :: "32 word" where "O_TRUNC = 0x200"
definition O_APPEND :: "32 word" where "O_APPEND = 0x400"

definition io_SeekStart :: int where "io_SeekStart = 0"
definition io_SeekCurrent :: int where "io_SeekCurrent = 1"
definition io_SeekEnd :: int where "io_SeekEnd = 2"

definition file_size :: "os \<Rightarrow> os_file \<Rightarrow> nat" where
  "file_size fs f = (case nodes fs (fname f) of Some (File content) \<Rightarrow> length content | _ \<Rightarrow> 0)"

text \<open>\<open>os.Open(name)\<close>: open for reading; whatever the name stands for can be opened.\<close>

definition os_Open :: "os \<Rightarrow> string \<Rightarrow> error + os_file" where
  "os_Open fs name =
     (case denied fs name of
        Some e \<Rightarrow> Inl e
      | None \<Rightarrow>
          (case nodes fs name of
             None \<Rightarrow> Inl ENOENT
           | Some nd \<Rightarrow> Inr \<lparr>fname = name, pos = 0, wronly = False, append = False\<rparr>))"

text \<open>\<open>os.MkdirAll(dir, perm)\<close>: succeeds on an existing directory, creates a missing one.\<close>

definition os_MkdirAll :: "os \<Rightarrow> string \<Rightarrow> error option \<times> os" where
  "os_MkdirAll fs d =
     (case nodes fs d of
        Some Dir \<Rightarrow> (None, fs)
      | Some (File content) \<Rightarrow> (Some ENOTDIR, fs)
      | Some DevNull \<Rightarrow> (Some ENOTDIR, fs)
      | Some Fifo \<Rightarrow> (Some ENOTDIR, fs)
      | None \<Rightarrow>
          (case denied fs d of
             Some e \<Rightarrow> (Some e, fs)
           | None \<Rightarrow> (None, fs\<lparr>nodes := (nodes fs)(d \<mapsto> Dir)\<rparr>)))"

text \<open>
  \<open>os.OpenFile(name, flag, perm)\<close> for the write-only flags the package passes:
  \<open>O_CREATE\<close> creates a missing file in an existing directory, \<open>O_TRUNC\<close> empties an
  existing regular file and leaves a device or a FIFO as it is, \<open>O_APPEND\<close> makes every
  write go to the end.
\<close>

definition os_OpenFile :: "os \<Rightarrow> string \<Rightarrow> 32 word \<Rightarrow> (error + os_file) \<times> os" where
  "os_OpenFile fs name flag =
     (let h = \<lparr>fname = name, pos = 0, wronly = (flag AND O_WRONLY \<noteq> 0),
                append = (flag AND O_APPEND \<noteq> 0)\<rparr>
      in case denied fs name of
           Some e \<Rightarrow> (Inl e, fs)
         | None \<Rightarrow>
             (case nodes fs name of
                Some Dir \<Rightarrow> (Inl EISDIR, fs)
              | Some (File content) \<Rightarrow>
                  if flag AND O_TRUNC \<noteq> 0
                  then (Inr h, fs\<lparr>nodes := (nodes fs)(name \<mapsto> File [])\<rparr>)
                  else (Inr h, fs)
              | Some DevNull \<Rightarrow> (Inr h, fs)
              | Some Fifo \<Rightarrow> (Inr h, fs)
              | None \<Rightarrow>
                  if flag AND O_CREATE \<noteq> 0 \<and> nodes fs (path_Dir fs name) = Some Dir
                  then (Inr h, fs\<lparr>nodes := (nodes fs)(name \<mapsto> File [])\<rparr>)
                  else (Inl ENOENT, fs)))"

text \<open>
  \<open>f.Read(b)\<close>: one read. On a regular file it transfers the bytes at the offset into
  the front of \<open>b\<close>, at most \<open>len(b)\<close>, at most what is left of the file and at most
  \<open>max_rw\<close>; at the end of the file it returns \<open>0, io.EOF\<close>, and for an empty buffer
  \<open>0, nil\<close>. On the null device and on the FIFO it finds nothing: \<open>0, io.EOF\<close>. The result
  is the buffer after the call, the count, the error and the file with its new offset.
\<close>

definition os_File_Read ::
  "os \<Rightarrow> os_file \<Rightarrow> byte list \<Rightarrow> byte list \<times> nat \<times> error option \<times> os_file" where
  "os_File_Read fs f b =
     (case nodes fs (fname f) of
        None \<Rightarrow> (b, 0, Some EBADF, f)
      | Some Dir \<Rightarrow> (b, 0, Some EISDIR, f)
      | Some (File content) \<Rightarrow>
          if wronly f then (b, 0, Some EBADF, f)
          else if b = [] then (b, 0, None, f)
          else if length content \<le> pos f then (b, 0, Some EOF, f)
          else (let k = min (length b) (min (length content - pos f) (max_rw fs))
                in (take k (drop (pos f) content) @ drop k b, k, None, f\<lparr>pos := pos f + k\<rparr>))
      | Some DevNull \<Rightarrow>
          if wronly f then (b, 0, Some EBADF, f)
          else if b = [] then (b, 0, None, f)
          else (b, 0, Some EOF, f)
      | Some Fifo \<Rightarrow>
          if wronly f then (b, 0, Some EBADF, f)
          else if b = [] then (b, 0, None, f)
          else (b, 0, Some EOF, f))"

text \<open>
  \<open>f.Write(b)\<close>: on a regular file all of \<open>b\<close> is written at the offset (at the end in
  append mode), a gap beyond the end is filled with zero bytes; the null device and the
  FIFO take all of \<open>b\<close> and keep nothing.
\<close>

definition os_File_Write ::
  "os \<Rightarrow> os_file \<Rightarrow> byte list \<Rightarrow> nat \<times> error option \<times> os \<times> os_file" where
  "os_File_Write fs f b =
     (case nodes fs (fname f) of
        None \<Rightarrow> (0, Some EBADF, fs, f)
      | Some Dir \<Rightarrow> (0, Some EBADF, fs, f)
      | Some (File content) \<Rightarrow>
          if \<not> wronly f then (0, Some EBADF, fs, f)
          else (let at = (if append f then length content else pos f);
                    content' = take at content @ replicate (at - length content) 0 @ b
                                 @ drop (at + length b) content
                in (length b, None, fs\<lparr>nodes := (nodes fs)(fname f \<mapsto> File content')\<rparr>,
                    f\<lparr>pos := at + length b\<rparr>))
      | Some DevNull \<Rightarrow>
          if \<not> wronly f then (0, Some EBADF, fs, f) else (length b, None, fs, f)
      | Some Fifo \<Rightarrow>
          if \<not> wronly f then (0, Some EBADF, fs, f) else (length b, None, fs, f))"

text \<open>
  \<open>f.Seek(offset, whence)\<close> with the \<open>int64\<close> offset and the three values of \<open>whence\<close>
  of package \<open>io\<close>: the new offset is \<open>offset\<close> from the start (0), from the current
  offset (1) or from the end (2). A result that is negative or beyond \<open>max_offset\<close> is
  refused with \<open>EINVAL\<close> and the offset stays. A FIFO cannot seek (\<open>ESPIPE\<close>); the null
  device answers 0 to every seek.
\<close>

definition os_File_Seek ::
  "os \<Rightarrow> os_file \<Rightarrow> 64 word \<Rightarrow> int \<Rightarrow> int \<times> error option \<times> os_file" where
  "os_File_Seek fs f offset whence =
     (if whence \<noteq> io_SeekStart \<and> whence \<noteq> io_SeekCurrent \<and> whence \<noteq> io_SeekEnd
      then (0, Some EINVAL, f)
      else (case nodes fs (fname f) of
              Some Fifo \<Rightarrow> (0, Some ESPIPE, f)
            | Some DevNull \<Rightarrow> (0, None, f\<lparr>pos := 0\<rparr>)
            | _ \<Rightarrow>
                (let base = (if whence = io_SeekStart then 0
                             else if whence = io_SeekCurrent then int (pos f)
                             else int (file_size fs f));
                     new = base + sint offset
                 in if new < 0 \<or> int (max_offset fs) < new then (0, Some EINVAL, f)
                    else (new, None, f\<lparr>pos := nat new\<rparr>))))"

definition os_File_Close :: "os_file \<Rightarrow> error option" where
  "os_File_Close f = None"

section \<open>ContextRespectingIoFile\<close>

record ContextRespectingIoFile =
  actualFile :: os_file

record asyncReadResult =
  Data :: "byte list"
  Length :: nat
  Error :: "error option"

text \<open>The built-in \<open>copy(dst, src)\<close>: the first \<open>min(len(dst), len(src))\<close> elements.\<close>

definition copy :: "'a list \<Rightarrow> 'a list \<Rightarrow> 'a list" where
  "copy dst src = take (length dst) src @ drop (length src) dst"

text \<open>The goroutine bodies: what they compute and send on their channel.\<close>

definition asyncRead ::
  "os \<Rightarrow> ContextRespectingIoFile \<Rightarrow> nat \<Rightarrow> asyncReadResult \<times> ContextRespectingIoFile" where
  "asyncRead fs f len =
     (case os_File_Read fs (actualFile f) (replicate len 0) of
        (d, n, e, af) \<Rightarrow> (\<lparr>Data = d, Length = n, Error = e\<rparr>, f\<lparr>actualFile := af\<rparr>))"

definition asyncWrite ::
  "os \<Rightarrow> ContextRespectingIoFile \<Rightarrow> byte list
     \<Rightarrow> nat \<times> error option \<times> os \<times> ContextRespectingIoFile" where
  "asyncWrite fs f b =
     (case os_File_Write fs (actualFile f) b of
        (n, e, fs', af) \<Rightarrow> (n, e, fs', f\<lparr>actualFile := af\<rparr>))"

definition asyncClose :: "ContextRespectingIoFile \<Rightarrow> error option" where
  "asyncClose f = os_File_Close (actualFile f)"

text \<open>
  \<open>Read(ctx, p)\<close> returns the count, the error, the caller's buffer \<open>p\<close> after the call and
  the file. The goroutine runs whichever branch the \<open>select\<close> takes, so the file carries
  the effect of the background read as soon as that read completes at all.
\<close>

definition Read ::
  "Context \<Rightarrow> sched \<Rightarrow> os \<Rightarrow> ContextRespectingIoFile \<Rightarrow> byte list
     \<Rightarrow> (nat \<times> error option \<times> byte list \<times> ContextRespectingIoFile) option" where
  "Read ctx sch fs f p =
     (case asyncRead fs f (length p) of
        (result, f') \<Rightarrow>
          (let f'' = (if op_at sch = None then f else f')
           in case select_ctx ctx sch of
                None \<Rightarrow> None
              | Some CtxDone \<Rightarrow> Some (0, Some (ctx_Err ctx), p, f'')
              | Some OpDone \<Rightarrow>
                  Some (Length result, Error result,
                        (if Error result = None then copy p (Data result) else p), f'')))"

text \<open>
  \<open>Write(ctx, b)\<close> returns the count, the error, the caller's buffer \<open>b\<close> after the call
  (the goroutine is handed the private copy \<open>nb\<close>), the file system and the file.
\<close>

definition Write ::
  "Context \<Rightarrow> sched \<Rightarrow> os \<Rightarrow> ContextRespectingIoFile \<Rightarrow> byte list
     \<Rightarrow> (nat \<times> error option \<times> byte list \<times> os \<times> ContextRespectingIoFile) option" where
  "Write ctx sch fs f b =
     (let nb = copy (replicate (length b) 0) b
      in case asyncWrite fs f nb of
           (len, err, fs', f') \<Rightarrow>
             (let fs'' = (if op_at sch = None then fs else fs');
                  f'' = (if op_at sch = None then f else f')
              in case select_ctx ctx sch of
                   None \<Rightarrow> None
                 | Some CtxDone \<Rightarrow> Some (0, Some (ctx_Err ctx), b, fs'', f'')
                 | Some OpDone \<Rightarrow> Some (len, err, b, fs'', f'')))"

definition Tell ::
  "Context \<Rightarrow> os \<Rightarrow> ContextRespectingIoFile \<Rightarrow> int \<times> error option \<times> ContextRespectingIoFile" where
  "Tell ctx fs f =
     (case os_File_Seek fs (actualFile f) 0 io_SeekCurrent of
        (r, e, af) \<Rightarrow> (r, e, f\<lparr>actualFile := af\<rparr>))"

definition Seek ::
  "Context \<Rightarrow> os \<Rightarrow> ContextRespectingIoFile \<Rightarrow> 64 word \<Rightarrow> int
     \<Rightarrow> int \<times> error option \<times> ContextRespectingIoFile" where
  "Seek ctx fs f offset whence =
     (case os_File_Seek fs (actualFile f) offset io_SeekStart of
        (r, e, af) \<Rightarrow> (r, e, f\<lparr>actualFile := af\<rparr>))"

definition Skip ::
  "Context \<Rightarrow> os \<Rightarrow> ContextRespectingIoFile \<Rightarrow> 64 word \<Rightarrow> error option \<times> ContextRespectingIoFile" where
  "Skip ctx fs f n =
     (case os_File_Seek fs (actualFile f) n io_SeekCurrent of
        (r, e, af) \<Rightarrow> (e, f\<lparr>actualFile := af\<rparr>))"

definition Close :: "Context \<Rightarrow> sched \<Rightarrow> ContextRespectingIoFile \<Rightarrow> error option option" where
  "Close ctx sch f =
     (case select_ctx ctx sch of
        None \<Rightarrow> None
      | Some CtxDone \<Rightarrow> Some (Some (ctx_Err ctx))
      | Some OpDone \<Rightarrow> Some (asyncClose f))"

definition NewContextRespectingIoFile :: "os_file \<Rightarrow> ContextRespectingIoFile" where
  "NewContextRespectingIoFile af = \<lparr>actualFile = af\<rparr>"

section \<open>FileAdapter\<close>

text \<open>Of a \<open>*url.URL\<close> the package reads the field \<open>Path\<close> only.\<close>

record url =
  Scheme :: string
  Path :: string

definition asyncOpenRead :: "os \<Rightarrow> string \<Rightarrow> error + ContextRespectingIoFile" where
  "asyncOpenRead fs path =
     (case os_Open fs path of
        Inl err \<Rightarrow> Inl err
      | Inr file \<Rightarrow> Inr (NewContextRespectingIoFile file))"

definition asyncOpenWrite ::
  "os \<Rightarrow> string \<Rightarrow> 32 word \<Rightarrow> (error + ContextRespectingIoFile) \<times> os" where
  "asyncOpenWrite fs fpath flag =
     (case os_MkdirAll fs (path_Dir fs fpath) of
        (Some err, fs1) \<Rightarrow> (Inl err, fs1)
      | (None, fs1) \<Rightarrow>
          (case os_OpenFile fs1 fpath flag of
             (Inl err, fs2) \<Rightarrow> (Inl err, fs2)
           | (Inr file, fs2) \<Rightarrow> (Inr (NewContextRespectingIoFile file), fs2)))"

text \<open>
  The three-way \<open>select\<close> of the open functions: the goroutine sends on exactly one of
  \<open>errchan\<close> and \<open>rchan\<close>, so the result is the context's error, the open's error or the
  handle.
\<close>

definition OpenReader ::
  "Context \<Rightarrow> sched \<Rightarrow> os \<Rightarrow> url \<Rightarrow> (error + ContextRespectingIoFile) option" where
  "OpenReader ctx sch fs fileurl =
     (case select_ctx ctx sch of
        None \<Rightarrow> None
      | Some CtxDone \<Rightarrow> Some (Inl (ctx_Err ctx))
      | Some OpDone \<Rightarrow> Some (asyncOpenRead fs (Path fileurl)))"

definition OpenWriter ::
  "Context \<Rightarrow> sched \<Rightarrow> os \<Rightarrow> url \<Rightarrow> ((error + ContextRespectingIoFile) \<times> os) option" where
  "OpenWriter ctx sch fs fileurl =
     (case asyncOpenWrite fs (Path fileurl) (O_WRONLY OR O_CREATE OR O_TRUNC) of
        (res, fs') \<Rightarrow>
          (let fs'' = (if op_at sch = None then fs else fs')
           in case select_ctx ctx sch of
                None \<Rightarrow> None
              | Some CtxDone \<Rightarrow> Some (Inl (ctx_Err ctx), fs'')
              | Some OpDone \<Rightarrow> Some (res, fs'')))"

definition OpenAppender ::
  "Context \<Rightarrow> sched \<Rightarrow> os \<Rightarrow> url \<Rightarrow> ((error + ContextRespectingIoFile) \<times> os) option" where
  "OpenAppender ctx sch fs fileurl =
     (case asyncOpenWrite fs (Path fileurl) (O_WRONLY OR O_CREATE OR O_TRUNC) of
        (res, fs') \<Rightarrow>
          (let fs'' = (if op_at sch = None then fs else fs')
           in case select_ctx ctx sch of
                None \<Rightarrow> None
              | Some CtxDone \<Rightarrow> Some (Inl (ctx_Err ctx), fs'')
              | Some OpDone \<Rightarrow> Some (res, fs'')))"

section \<open>FileWatcher\<close>

text \<open>
  The watcher's calls into the system are answered by an environment: the file system,
  what \<open>fsnotify.NewWatcher\<close>, \<open>os.Stat\<close>, \<open>os.Readlink\<close>, \<open>(*url.URL).Parse\<close>, the
  watcher's \<open>Add\<close>, \<open>Remove\<close> and \<open>Close\<close> and \<open>Readdirnames\<close> return, and the schedule
  of the open of each path. A watcher and a callback are identified by a number.
\<close>

type_synonym FileWatchFunc = nat

record FileInfo =
  Mode :: "32 word"

definition os_ModeDir :: "32 word" where "os_ModeDir = 0x80000000"
definition os_ModeSymlink :: "32 word" where "os_ModeSymlink = 0x8000000"

definition IsDir :: "FileInfo \<Rightarrow> bool" where
  "IsDir fi = (Mode fi AND os_ModeDir \<noteq> 0)"

definition fsnotify_Create :: "32 word" where "fsnotify_Create = 1"
definition fsnotify_Write :: "32 word" where "fsnotify_Write = 2"
definition fsnotify_Remove :: "32 word" where "fsnotify_Remove = 4"
definition fsnotify_Rename :: "32 word" where "fsnotify_Rename = 8"
definition fsnotify_Chmod :: "32 word" where "fsnotify_Chmod = 16"

record Event =
  Name :: string
  Op :: "32 word"

record env =
  fsys :: os
  fsnotify_NewWatcher :: "error + nat"
  os_Stat :: "string \<Rightarrow> error + FileInfo"
  os_Readlink :: "string \<Rightarrow> error + string"
  url_Parse :: "url \<Rightarrow> string \<Rightarrow> error + url"
  watcher_Add :: "nat \<Rightarrow> string \<Rightarrow> error option"
  watcher_Remove :: "nat \<Rightarrow> string \<Rightarrow> error option"
  watcher_Close :: "nat \<Rightarrow> error option"
  Readdirnames :: "os_file \<Rightarrow> error + string list"
  open_sched :: "string \<Rightarrow> sched"

record FileWatcher =
  cb :: FileWatchFunc
  watcher :: nat
  path :: url
  shutdown :: bool

text \<open>
  What a run does to the world is the sequence of its actions: the watcher it created,
  the watch it registered, the directory it opened, listed and closed, each call of
  \<open>OpenReader\<close>, each call of the callback with the reader it was given (\<open>None\<close> is the
  nil reader), the goroutines it started, the errors it sent on the error channel, and
  the watch and the watcher it released.
\<close>

datatype action =
    NewWatcher nat
  | WatcherAdd nat string
  | OpenDir string
  | ReadDir string
  | CloseDir string
  | OpenReaderCall url
  | Callback FileWatchFunc url "ContextRespectingIoFile option"
  | GoWatchForChanges
  | GoCallback FileWatchFunc url ContextRespectingIoFile
  | SendError error
  | WatcherRemove nat string
  | WatcherClose nat

fun is_Callback :: "action \<Rightarrow> bool" where
  "is_Callback (Callback c u r) = True"
| "is_Callback a = False"

text \<open>The actions of the initial scan: enumeration, opening of readers, callbacks.\<close>

fun is_scan :: "action \<Rightarrow> bool" where
  "is_scan (OpenDir p) = True"
| "is_scan (ReadDir p) = True"
| "is_scan (CloseDir p) = True"
| "is_scan (OpenReaderCall u) = True"
| "is_scan (Callback c u r) = True"
| "is_scan a = False"

text \<open>A watcher handle is held after a run if the run created it and did not close it.\<close>

definition holds_watcher :: "nat \<Rightarrow> action list \<Rightarrow> bool" where
  "holds_watcher w tr = (NewWatcher w \<in> set tr \<and> WatcherClose w \<notin> set tr)"

definition holds_watch :: "nat \<Rightarrow> string \<Rightarrow> action list \<Rightarrow> bool" where
  "holds_watch w p tr = (WatcherAdd w p \<in> set tr \<and> WatcherRemove w p \<notin> set tr)"

text \<open>
  The loop that resolves symbolic links (lines 55 to 74). Nothing bounds it: on a chain
  of links that never ends it does not return, which is the value \<open>None\<close>.
\<close>

partial_function (option) resolve_symlinks ::
  "env \<Rightarrow> url \<Rightarrow> FileInfo \<Rightarrow> (error + url \<times> FileInfo) option" where
  "resolve_symlinks e p fi =
     (if Mode fi AND os_ModeSymlink = os_ModeSymlink
      then (case os_Readlink e (Path p) of
              Inl err \<Rightarrow> Some (Inl err)
            | Inr subpath \<Rightarrow>
                (case url_Parse e p subpath of
                   Inl err \<Rightarrow> Some (Inl err)
                 | Inr p' \<Rightarrow>
                     (case os_Stat e (Path p') of
                        Inl err \<Rightarrow> Some (Inl err)
                      | Inr fi' \<Rightarrow> resolve_symlinks e p' fi')))
      else Some (Inr (p, fi)))"

text \<open>
  The body of the loop over the names of a directory (lines 108 to 118): the error of
  \<open>OpenReader\<close> is assigned and not looked at, and the callback gets the reader as it is.
\<close>

definition report_child ::
  "env \<Rightarrow> Context \<Rightarrow> FileWatchFunc \<Rightarrow> url \<Rightarrow> string \<Rightarrow> (error option \<times> action list) option" where
  "report_child e ctx cbf dpath name =
     (case url_Parse e dpath name of
        Inl err \<Rightarrow> Some (Some err, [])
      | Inr combined \<Rightarrow>
          (case OpenReader ctx (open_sched e (Path combined)) (fsys e) combined of
             None \<Rightarrow> None
           | Some r \<Rightarrow>
               Some (None, [OpenReaderCall combined,
                            Callback cbf combined (case r of Inl err \<Rightarrow> None | Inr reader \<Rightarrow> Some reader)])))"

fun scan_children ::
  "env \<Rightarrow> Context \<Rightarrow> FileWatchFunc \<Rightarrow> url \<Rightarrow> string list \<Rightarrow> (error option \<times> action list) option" where
  "scan_children e ctx cbf dpath [] = Some (None, [])"
| "scan_children e ctx cbf dpath (name # names) =
     (case report_child e ctx cbf dpath name of
        None \<Rightarrow> None
      | Some (Some err, tr) \<Rightarrow> Some (Some err, tr)
      | Some (None, tr) \<Rightarrow>
          (case scan_children e ctx cbf dpath names of
             None \<Rightarrow> None
           | Some (res, tr') \<Rightarrow> Some (res, tr @ tr')))"

text \<open>The directory branch (lines 82 to 121).\<close>

definition scan_directory ::
  "env \<Rightarrow> Context \<Rightarrow> FileWatchFunc \<Rightarrow> url \<Rightarrow> (error option \<times> action list) option" where
  "scan_directory e ctx cbf p =
     (case url_Parse e p (Path p @ ''/'') of
        Inl err \<Rightarrow> Some (Some err, [])
      | Inr dpath \<Rightarrow>
          (case os_Open (fsys e) (Path p) of
             Inl err \<Rightarrow> Some (Some err, [])
           | Inr f \<Rightarrow>
               (case Readdirnames e f of
                  Inl err \<Rightarrow> Some (Some err, [OpenDir (Path p)])
                | Inr names \<Rightarrow>
                    (case scan_children e ctx cbf dpath names of
                       None \<Rightarrow> None
                     | Some (Some err, tr) \<Rightarrow>
                         Some (Some err, OpenDir (Path p) # ReadDir (Path p) # tr)
                     | Some (None, tr) \<Rightarrow>
                         Some (None, OpenDir (Path p) # ReadDir (Path p) # tr @ [CloseDir (Path p)])))))"

text \<open>The single-file branch (lines 122 to 132).\<close>

definition report_file ::
  "env \<Rightarrow> Context \<Rightarrow> FileWatchFunc \<Rightarrow> url \<Rightarrow> (error option \<times> action list) option" where
  "report_file e ctx cbf p =
     (case OpenReader ctx (open_sched e (Path p)) (fsys e) p of
        None \<Rightarrow> None
      | Some (Inl err) \<Rightarrow> Some (Some err, [OpenReaderCall p])
      | Some (Inr reader) \<Rightarrow> Some (None, [OpenReaderCall p, Callback cbf p (Some reader)]))"

text \<open>The report of the initial versions (lines 82 to 132): one of the two branches.\<close>

definition initial_scan ::
  "env \<Rightarrow> Context \<Rightarrow> FileWatchFunc \<Rightarrow> url \<Rightarrow> FileInfo \<Rightarrow> (error option \<times> action list) option" where
  "initial_scan e ctx cbf p fi =
     (if IsDir fi then scan_directory e ctx cbf p else report_file e ctx cbf p)"

text \<open>
  \<open>NewFileWatcher(ctx, path, cb)\<close>: the result and the actions of the run; \<open>None\<close> when
  it does not return. \<open>ret\<close> is built before the links are resolved, so it keeps the
  path it was given. Every \<open>return nil, err\<close> returns at once.
\<close>

definition NewFileWatcher ::
  "env \<Rightarrow> Context \<Rightarrow> url \<Rightarrow> FileWatchFunc \<Rightarrow> ((error + FileWatcher) \<times> action list) option" where
  "NewFileWatcher e ctx p cbf =
     (case fsnotify_NewWatcher e of
        Inl err \<Rightarrow> Some (Inl err, [])
      | Inr w \<Rightarrow>
          (let ret = \<lparr>cb = cbf, watcher = w, path = p, shutdown = False\<rparr>
           in case os_Stat e (Path p) of
                Inl err \<Rightarrow> Some (Inl err, [NewWatcher w])
              | Inr fi \<Rightarrow>
                  (case resolve_symlinks e p fi of
                     None \<Rightarrow> None
                   | Some (Inl err) \<Rightarrow> Some (Inl err, [NewWatcher w])
                   | Some (Inr (rp, rfi)) \<Rightarrow>
                       (case watcher_Add e w (Path rp) of
                          Some err \<Rightarrow> Some (Inl err, [NewWatcher w])
                        | None \<Rightarrow>
                            (case initial_scan e ctx cbf rp rfi of
                               None \<Rightarrow> None
                             | Some (Some err, tr) \<Rightarrow>
                                 Some (Inl err, NewWatcher w # WatcherAdd w (Path rp) # tr)
                             | Some (None, tr) \<Rightarrow>
                                 Some (Inr ret, NewWatcher w # WatcherAdd w (Path rp) # tr
                                                  @ [GoWatchForChanges]))))))"

text \<open>
  The body of the loop of \<open>watchForChanges\<close> for one event (lines 154 to 171), under the
  background context, which is never done.
\<close>

definition dispatch :: "env \<Rightarrow> FileWatcher \<Rightarrow> Event \<Rightarrow> action list option" where
  "dispatch e f event =
     (if Op event AND (fsnotify_Write OR fsnotify_Remove OR fsnotify_Rename) \<noteq> 0
      then (case url_Parse e (path f) (Name event) of
              Inl err \<Rightarrow> Some [SendError err]
            | Inr subject \<Rightarrow>
                (case OpenReader Background (open_sched e (Path subject)) (fsys e) subject of
                   None \<Rightarrow> None
                 | Some (Inl err) \<Rightarrow> Some [OpenReaderCall subject, SendError err]
                 | Some (Inr reader) \<Rightarrow>
                     Some [OpenReaderCall subject, GoCallback (cb f) subject reader]))
      else Some [])"

text \<open>
  \<open>watchForChanges\<close> on the events the channel delivers. \<open>Shutdown\<close> runs in another
  goroutine, so each event comes with whether \<open>Shutdown\<close> has set the flag by the time the
  loop condition is evaluated before that receive. The result is the actions up to the
  exit of the loop or the end of the events; \<open>None\<close> when an open blocks for ever.
\<close>

fun watchForChanges :: "env \<Rightarrow> FileWatcher \<Rightarrow> (bool \<times> Event) list \<Rightarrow> action list option" where
  "watchForChanges e f [] = Some []"
| "watchForChanges e f ((sd, event) # rest) =
     (if shutdown f \<or> sd then Some []
      else (case dispatch e f event of
              None \<Rightarrow> None
            | Some tr \<Rightarrow>
                (case watchForChanges e f rest of
                   None \<Rightarrow> None
                 | Some tr' \<Rightarrow> Some (tr @ tr'))))"

text \<open>\<open>Shutdown()\<close>: the error, the watcher with the flag set, and the actions.\<close>

definition Shutdown :: "env \<Rightarrow> FileWatcher \<Rightarrow> error option \<times> FileWatcher \<times> action list" where
  "Shutdown e f =
     (let f' = f\<lparr>shutdown := True\<rparr>
      in case watcher_Remove e (watcher f') (Path (path f')) of
           Some err \<Rightarrow> (Some err, f', [])
         | None \<Rightarrow>
             (watcher_Close e (watcher f'), f',
              [WatcherRemove (watcher f') (Path (path f')), WatcherClose (watcher f')]))"

section \<open>Situations the properties speak about\<close>

text \<open>
  The cancellation signal fires before the blocking call completes: the context is done
  at some instant and the goroutine delivers later or never.
\<close>

definition fires_before_completion :: "Context \<Rightarrow> sched \<Rightarrow> bool" where
  "fires_before_completion ctx sch =
     (case done_at ctx of
        None \<Rightarrow> False
      | Some d \<Rightarrow> (case op_at sch of None \<Rightarrow> True | Some t \<Rightarrow> d < t))"

text \<open>The caller reaches its \<open>select\<close> before the blocking call completes.\<close>

definition selecting_before_completion :: "sched \<Rightarrow> bool" where
  "selecting_before_completion sch =
     (case op_at sch of None \<Rightarrow> True | Some t \<Rightarrow> sel_at sch < t)"

text \<open>A name stands for a regular file or for nothing yet.\<close>

definition regular_or_new :: "os \<Rightarrow> string \<Rightarrow> bool" where
  "regular_or_new fs name =
     (case nodes fs name of None \<Rightarrow> True | Some (File content) \<Rightarrow> True | Some nd \<Rightarrow> False)"

text \<open>A handle on a regular file.\<close>

definition regular_file :: "os \<Rightarrow> ContextRespectingIoFile \<Rightarrow> bool" where
  "regular_file fs f =
     (case nodes fs (fname (actualFile f)) of Some (File content) \<Rightarrow> True | _ \<Rightarrow> False)"

text \<open>The writer that \<open>OpenWriter\<close> and \<open>OpenAppender\<close> hand out for a name.\<close>

definition fresh_writer :: "string \<Rightarrow> ContextRespectingIoFile" where
  "fresh_writer name = \<lparr>actualFile = \<lparr>fname = name, pos = 0, wronly = True, append = False\<rparr>\<rparr>"

text \<open>
  What the scan reports for a child of the directory: the callback is called with the URL
  that \<open>dpath.Parse(name)\<close> gives and with the reader that \<open>OpenReader\<close> returned for
  that URL, the nil reader when \<open>OpenReader\<close> returned an error.
\<close>

definition child_report ::
  "env \<Rightarrow> Context \<Rightarrow> FileWatchFunc \<Rightarrow> url \<Rightarrow> string \<Rightarrow> action \<Rightarrow> bool" where
  "child_report e ctx cbf dpath name a =
     (case url_Parse e dpath name of
        Inl err \<Rightarrow> False
      | Inr combined \<Rightarrow>
          (case OpenReader ctx (open_sched e (Path combined)) (fsys e) combined of
             None \<Rightarrow> False
           | Some r \<Rightarrow>
               a = Callback cbf combined (case r of Inl err \<Rightarrow> None | Inr reader \<Rightarrow> Some reader)))"

text \<open>The name of a child resolves and \<open>OpenReader\<close> returns for it, a reader or an error.\<close>

definition child_opened :: "env \<Rightarrow> Context \<Rightarrow> url \<Rightarrow> string \<Rightarrow> bool" where
  "child_opened e ctx dpath name =
     (case url_Parse e dpath name of
        Inl err \<Rightarrow> False
      | Inr combined \<Rightarrow>
          (case OpenReader ctx (open_sched e (Path combined)) (fsys e) combined of
             None \<Rightarrow> False
           | Some r \<Rightarrow> True))"

text \<open>The path of the child \<open>name\<close> of the directory at \<open>rp\<close>.\<close>

definition child_path :: "url \<Rightarrow> string \<Rightarrow> string" where
  "child_path rp name = Path rp @ ''/'' @ name"

text \<open>A child is readable: the system opens it for reading.\<close>

definition child_openable :: "env \<Rightarrow> url \<Rightarrow> string \<Rightarrow> bool" where
  "child_openable e rp name =
     (case os_Open (fsys e) (child_path rp name) of Inl err \<Rightarrow> False | Inr f \<Rightarrow> True)"

text \<open>
  The name of a child resolves to the child: \<open>dpath.Parse(name)\<close> gives a URL whose path
  is the path of the child. (A name with a \<open>?\<close> or a \<open>#\<close> does not: the URL syntax cuts it.)
\<close>

definition child_resolves :: "env \<Rightarrow> url \<Rightarrow> url \<Rightarrow> string \<Rightarrow> bool" where
  "child_resolves e rp dpath name =
     (case url_Parse e dpath name of
        Inl err \<Rightarrow> False
      | Inr combined \<Rightarrow> Path combined = child_path rp name)"

text \<open>
  The blocking call completes before the context is done: it completes, and the context
  is never done or is done later, after the caller has reached its \<open>select\<close>.
\<close>

definition completes_first :: "Context \<Rightarrow> sched \<Rightarrow> bool" where
  "completes_first ctx sch =
     (case op_at sch of
        None \<Rightarrow> False
      | Some t \<Rightarrow> (case done_at ctx of None \<Rightarrow> True | Some d \<Rightarrow> t < d \<and> sel_at sch < d))"

text \<open>The reader that \<open>OpenReader\<close> hands out for a name.\<close>

definition fresh_reader :: "string \<Rightarrow> ContextRespectingIoFile" where
  "fresh_reader name = \<lparr>actualFile = \<lparr>fname = name, pos = 0, wronly = False, append = False\<rparr>\<rparr>"

text \<open>
  The report of a child with a reader just opened for it: the callback is called with the
  URL of the child and a reader on the path of the child, at offset 0.
\<close>

definition fresh_report :: "env \<Rightarrow> FileWatchFunc \<Rightarrow> url \<Rightarrow> url \<Rightarrow> string \<Rightarrow> action \<Rightarrow> bool" where
  "fresh_report e cbf rp dpath name a =
     (case url_Parse e dpath name of
        Inl err \<Rightarrow> False
      | Inr combined \<Rightarrow>
          Path combined = child_path rp name
          \<and> a = Callback cbf combined (Some (fresh_reader (child_path rp name))))"

text \<open>What the loop of \<open>watchForChanges\<close> reports: a callback or an error.\<close>

fun is_live :: "action \<Rightarrow> bool" where
  "is_live (GoCallback c u r) = True"
| "is_live (SendError err) = True"
| "is_live a = False"

subsection \<open>Sample inputs\<close>

definition fs_abc :: os where
  "fs_abc = \<lparr>nodes = [''/d'' \<mapsto> Dir, ''/d/f'' \<mapsto> File [1, 2, 3]],
             denied = (\<lambda>n. None), path_Dir = (\<lambda>n. ''/d''),
             max_rw = 0x7ffff000, max_offset = 0xFFFFFFFF000\<rparr>"

definition rd_abc :: ContextRespectingIoFile where
  "rd_abc = \<lparr>actualFile = \<lparr>fname = ''/d/f'', pos = 0, wronly = False, append = False\<rparr>\<rparr>"

definition ctx_cancelled :: Context where
  "ctx_cancelled = \<lparr>done_at = Some 0, ctx_Err = Canceled\<rparr>"

definition fs_dir :: os where
  "fs_dir = \<lparr>nodes = [''/d'' \<mapsto> Dir], denied = (\<lambda>n. None), path_Dir = (\<lambda>n. ''/d''),
             max_rw = 0x7ffff000, max_offset = 0xFFFFFFFF000\<rparr>"

definition u_g :: url where
  "u_g = \<lparr>Scheme = ''file'', Path = ''/d/g''\<rparr>"

definition sch_prompt :: sched where
  "sch_prompt = \<lparr>op_at = Some 1, sel_at = 0, pick = CtxDone\<rparr>"

definition fs_g :: "byte list \<Rightarrow> os" where
  "fs_g content = fs_dir\<lparr>nodes := (nodes fs_dir)(''/d/g'' \<mapsto> File content)\<rparr>"

definition rd_g :: "nat \<Rightarrow> ContextRespectingIoFile" where
  "rd_g n = \<lparr>actualFile = \<lparr>fname = ''/d/g'', pos = n, wronly = False, append = False\<rparr>\<rparr>"

definition bytes20 :: "byte list" where
  "bytes20 = [1, 2, 3, 4, 5, 6, 7, 8, 9, 10, 11, 12, 13, 14, 15, 16, 17, 18, 19, 20]"

definition fs_two :: os where
  "fs_two = \<lparr>nodes = [''/d'' \<mapsto> Dir, ''/d/a.txt'' \<mapsto> File [1], ''/d/b.txt'' \<mapsto> File [2]],
             denied = (\<lambda>n. None), path_Dir = (\<lambda>n. ''/d''),
             max_rw = 0x7ffff000, max_offset = 0xFFFFFFFF000\<rparr>"

definition u_file :: "string \<Rightarrow> url" where
  "u_file n = \<lparr>Scheme = ''file'', Path = n\<rparr>"

definition rd_file :: "string \<Rightarrow> ContextRespectingIoFile" where
  "rd_file n = \<lparr>actualFile = \<lparr>fname = n, pos = 0, wronly = False, append = False\<rparr>\<rparr>"

definition fs_dev :: os where
  "fs_dev = \<lparr>nodes = [''/dev'' \<mapsto> Dir, ''/dev/null'' \<mapsto> DevNull, ''/dev/fifo'' \<mapsto> Fifo],
             denied = (\<lambda>n. None), path_Dir = (\<lambda>n. ''/dev''),
             max_rw = 0x7ffff000, max_offset = 0xFFFFFFFF000\<rparr>"

definition fw_two :: "string \<Rightarrow> FileWatcher" where
  "fw_two n = \<lparr>cb = 3, watcher = 7, path = u_file n, shutdown = False\<rparr>"

definition env_sample :: "(nat \<Rightarrow> string \<Rightarrow> error option) \<Rightarrow> string list \<Rightarrow> env" where
  "env_sample rm names =
     \<lparr>fsys = fs_two,
      fsnotify_NewWatcher = Inr 7,
      os_Stat = (\<lambda>n. if n = ''/d'' then Inr \<lparr>Mode = os_ModeDir\<rparr>
                      else if n = ''/d/a.txt'' \<or> n = ''/d/b.txt'' then Inr \<lparr>Mode = 0\<rparr>
                      else Inl ENOENT),
      os_Readlink = (\<lambda>n. Inl EINVAL),
      url_Parse = (\<lambda>u ref. if ref = [] then Inr u
                            else if hd ref = CHR ''/'' then Inr (u\<lparr>Path := ref\<rparr>)
                            else Inr (u\<lparr>Path := Path u @ ref\<rparr>)),
      watcher_Add = (\<lambda>w n. None),
      watcher_Remove = rm,
      watcher_Close = (\<lambda>w. None),
      Readdirnames = (\<lambda>f. if fname f = ''/d'' then Inr names else Inl ENOTDIR),
      open_sched = (\<lambda>n. sch_prompt)\<rparr>"

definition env_two :: env where
  "env_two = env_sample (\<lambda>w n. None) [''a.txt'', ''b.txt'']"

definition tr_two :: "action list" where
  "tr_two =
     [NewWatcher 7, WatcherAdd 7 ''/d'', OpenDir ''/d'', ReadDir ''/d'',
      OpenReaderCall (u_file ''/d/a.txt''),
      Callback 3 (u_file ''/d/a.txt'') (Some (rd_file ''/d/a.txt'')),
      OpenReaderCall (u_file ''/d/b.txt''),
      Callback 3 (u_file ''/d/b.txt'') (Some (rd_file ''/d/b.txt'')),
      CloseDir ''/d'', GoWatchForChanges]"

definition rm_fails :: "nat \<Rightarrow> string \<Rightarrow> error option" where
  "rm_fails w n = Some (OtherError ''remove failed'')"

definition tr_nil :: "action list" where
  "tr_nil =
     [NewWatcher 7, WatcherAdd 7 ''/d'', OpenDir ''/d'', ReadDir ''/d'',
      OpenReaderCall (u_file ''/d/a.txt''), Callback 3 (u_file ''/d/a.txt'') None,
      OpenReaderCall (u_file ''/d/b.txt''), Callback 3 (u_file ''/d/b.txt'') None,
      CloseDir ''/d'', GoWatchForChanges]"

definition fs_q :: os where
  "fs_q = \<lparr>nodes = [''/d'' \<mapsto> Dir, ''/d/a'' \<mapsto> File [1], ''/d/a?x'' \<mapsto> File [2]],
           denied = (\<lambda>n. None), path_Dir = (\<lambda>n. ''/d''),
           max_rw = 0x7ffff000, max_offset = 0xFFFFFFFF000\<rparr>"

definition env_q :: env where
  "env_q =
     env_two\<lparr>fsys := fs_q,
             url_Parse := (\<lambda>u ref. if ref \<noteq> [] \<and> hd ref = CHR ''/'' then Inr (u\<lparr>Path := ref\<rparr>)
                                   else Inr (u\<lparr>Path := Path u @ takeWhile (\<lambda>c. c \<noteq> CHR ''?'') ref\<rparr>)),
             Readdirnames := (\<lambda>f. Inr [''a'', ''a?x''])\<rparr>"

definition tr_q :: "action list" where
  "tr_q =
     [NewWatcher 7, WatcherAdd 7 ''/d'', OpenDir ''/d'', ReadDir ''/d'',
      OpenReaderCall (u_file ''/d/a''), Callback 3 (u_file ''/d/a'') (Some (rd_file ''/d/a'')),
      OpenReaderCall (u_file ''/d/a''), Callback 3 (u_file ''/d/a'') (Some (rd_file ''/d/a'')),
      CloseDir ''/d'', GoWatchForChanges]"

section \<open>Properties\<close>

subsection \<open>The select statement\<close>

lemma select_ctx_CtxDone:
  assumes "fires_before_completion ctx sch" and "selecting_before_completion sch"
  shows "select_ctx ctx sch = Some CtxDone"
  using assms
  by (auto simp: fires_before_completion_def selecting_before_completion_def select_ctx_def
        ready_def split: option.splits)

lemma select_ctx_OpDone_completes:
  "select_ctx ctx sch = Some OpDone \<Longrightarrow> op_at sch \<noteq> None"
  by (auto simp: select_ctx_def ready_def split: if_splits option.splits)

lemma select_ctx_never_done:
  "done_at ctx = None \<Longrightarrow> op_at sch = Some t \<Longrightarrow> select_ctx ctx sch = Some OpDone"
  by (auto simp: select_ctx_def ready_def split: if_splits option.splits)

lemma select_prompt: "select_ctx Background sch_prompt = Some OpDone"
  by (simp add: select_ctx_def Background_def sch_prompt_def ready_def)

lemma op_at_prompt: "op_at sch_prompt = Some 1"
  by (simp add: sch_prompt_def)

subsection \<open>Cancelled reads and writes\<close>

text \<open>
  C1, as stated: whenever the cancellation signal fires before the blocking call
  completes, \<open>Read\<close> and \<open>Write\<close> return 0 and the context's error and leave the buffer
  as it was. This fails when the caller reaches its \<open>select\<close> only after both the signal
  and the result are there: the context is done at instant 0, the read of the file
  \<open>[1, 2, 3]\<close> into a buffer of two bytes completes at instant 1, the \<open>select\<close> is
  evaluated at instant 2 and picks the result channel. \<open>Read\<close> then returns 2 and no
  error, and the buffer holds \<open>[1, 2]\<close>.
\<close>

theorem cancelled_Read_counterexample:
  "fires_before_completion ctx_cancelled \<lparr>op_at = Some 1, sel_at = 2, pick = OpDone\<rparr>
   \<and> Read ctx_cancelled \<lparr>op_at = Some 1, sel_at = 2, pick = OpDone\<rparr> fs_abc rd_abc [0, 0]
       = Some (2, None, [1, 2],
               \<lparr>actualFile = \<lparr>fname = ''/d/f'', pos = 2, wronly = False, append = False\<rparr>\<rparr>)"
  by (simp add: fires_before_completion_def ctx_cancelled_def Read_def asyncRead_def
        os_File_Read_def fs_abc_def rd_abc_def select_ctx_def ready_def copy_def)

text \<open>
  C1, amended: if the cancellation signal fires before the blocking call completes and
  the caller has reached its \<open>select\<close> before the blocking call completes, then \<open>Read\<close>
  and \<open>Write\<close> return 0 and the context's error and leave the caller's buffer as it was,
  whatever the file system and the file are, that is whatever the background call
  produces.
\<close>

theorem cancelled_Read_Write:
  assumes "fires_before_completion ctx sch" and "selecting_before_completion sch"
  shows "(\<exists>f'. Read ctx sch fs f p = Some (0, Some (ctx_Err ctx), p, f'))
       \<and> (\<exists>fs' f'. Write ctx sch fs f b = Some (0, Some (ctx_Err ctx), b, fs', f'))"
  using select_ctx_CtxDone[OF assms]
  by (simp add: Read_def Write_def Let_def split: prod.splits)

theorem cancelled_Read_Write_witness:
  "fires_before_completion ctx_cancelled \<lparr>op_at = Some 5, sel_at = 2, pick = OpDone\<rparr>
   \<and> selecting_before_completion \<lparr>op_at = Some 5, sel_at = 2, pick = OpDone\<rparr>
   \<and> (\<exists>f'. Read ctx_cancelled \<lparr>op_at = Some 5, sel_at = 2, pick = OpDone\<rparr> fs_abc rd_abc [0, 0]
              = Some (0, Some Canceled, [0, 0], f'))"
proof -
  have a: "fires_before_completion ctx_cancelled \<lparr>op_at = Some 5, sel_at = 2, pick = OpDone\<rparr>"
    by (simp add: fires_before_completion_def ctx_cancelled_def)
  have b: "selecting_before_completion \<lparr>op_at = Some 5, sel_at = 2, pick = OpDone\<rparr>"
    by (simp add: selecting_before_completion_def)
  from cancelled_Read_Write[OF a b, of fs_abc rd_abc "[0, 0]"] a b
  show ?thesis by (simp add: ctx_cancelled_def)
qed

subsection \<open>Writing a file and reading it back\<close>

lemma asyncOpenWrite_Inr:
  assumes "asyncOpenWrite fs name (O_WRONLY OR O_CREATE OR O_TRUNC) = (Inr w, fs')"
      and "regular_or_new fs name"
  shows "nodes fs' name = Some (File []) \<and> w = fresh_writer name \<and> max_rw fs' = max_rw fs"
  using assms
  by (auto simp: asyncOpenWrite_def os_MkdirAll_def os_OpenFile_def Let_def regular_or_new_def
        O_WRONLY_def O_CREATE_def O_TRUNC_def O_APPEND_def
        NewContextRespectingIoFile_def fresh_writer_def
        split: option.splits node.splits if_splits prod.splits sum.splits)

lemma OpenWriter_Inr:
  assumes "OpenWriter ctx sch fs u = Some (Inr w, fs')" and "regular_or_new fs (Path u)"
  shows "nodes fs' (Path u) = Some (File []) \<and> w = fresh_writer (Path u)
         \<and> max_rw fs' = max_rw fs"
proof -
  obtain res fs1 where a: "asyncOpenWrite fs (Path u) (O_WRONLY OR O_CREATE OR O_TRUNC) = (res, fs1)"
    by (cases "asyncOpenWrite fs (Path u) (O_WRONLY OR O_CREATE OR O_TRUNC)")
  from assms a have s: "select_ctx ctx sch = Some OpDone"
    by (auto simp: OpenWriter_def Let_def split: option.splits branch.splits)
  hence c: "op_at sch \<noteq> None" by (rule select_ctx_OpDone_completes)
  from assms a s c have "res = Inr w" "fs' = fs1"
    by (auto simp: OpenWriter_def Let_def)
  with a asyncOpenWrite_Inr assms(2) show ?thesis by blast
qed

lemma Write_fresh:
  assumes "nodes fs name = Some (File [])"
      and "Write ctx sch fs (fresh_writer name) data = Some (n, None, b, fs', w')"
  shows "nodes fs' name = Some (File data) \<and> n = length data \<and> b = data
         \<and> max_rw fs' = max_rw fs"
proof -
  from assms have s: "select_ctx ctx sch = Some OpDone"
    by (auto simp: Write_def Let_def split: option.splits branch.splits prod.splits)
  hence c: "op_at sch \<noteq> None" by (rule select_ctx_OpDone_completes)
  from assms s c show ?thesis
    by (auto simp: Write_def Let_def asyncWrite_def os_File_Write_def fresh_writer_def copy_def
          split: prod.splits)
qed

lemma OpenReader_Inr:
  assumes "OpenReader ctx sch fs u = Some (Inr r)"
  shows "r = \<lparr>actualFile = \<lparr>fname = Path u, pos = 0, wronly = False, append = False\<rparr>\<rparr>"
  using assms
  by (auto simp: OpenReader_def asyncOpenRead_def os_Open_def NewContextRespectingIoFile_def
        split: option.splits branch.splits sum.splits)

lemma Read_whole:
  assumes "nodes fs name = Some (File data)" and "data \<noteq> []" and "length data \<le> length p"
      and "done_at ctx = None" and "op_at sch = Some t" and "length data \<le> max_rw fs"
  shows "Read ctx sch fs \<lparr>actualFile = \<lparr>fname = name, pos = 0, wronly = False, append = False\<rparr>\<rparr> p
         = Some (length data, None, data @ replicate (length p - length data) 0,
                 \<lparr>actualFile = \<lparr>fname = name, pos = length data, wronly = False, append = False\<rparr>\<rparr>)"
  using assms select_ctx_never_done[OF assms(4,5)]
  by (auto simp: Read_def asyncRead_def os_File_Read_def Let_def copy_def min_def)

lemma OpenWriter_sample:
  "OpenWriter Background sch_prompt fs_dir u_g = Some (Inr (fresh_writer ''/d/g''), fs_g [])"
  by (simp add: OpenWriter_def select_prompt asyncOpenWrite_def os_MkdirAll_def os_OpenFile_def
        fs_dir_def fs_g_def u_g_def O_WRONLY_def O_CREATE_def O_TRUNC_def O_APPEND_def
        NewContextRespectingIoFile_def fresh_writer_def op_at_prompt)

lemma Write_sample:
  "Write Background sch_prompt (fs_g []) (fresh_writer ''/d/g'') [104, 0, 105]
     = Some (3, None, [104, 0, 105], fs_g [104, 0, 105],
             \<lparr>actualFile = \<lparr>fname = ''/d/g'', pos = 3, wronly = True, append = False\<rparr>\<rparr>)"
  by (simp add: Write_def select_prompt asyncWrite_def os_File_Write_def fs_g_def fs_dir_def
        fresh_writer_def copy_def op_at_prompt Let_def)

lemma Close_sample:
  "Close Background sch_prompt f = Some None"
  by (simp add: Close_def select_prompt asyncClose_def os_File_Close_def)

lemma OpenReader_sample:
  "OpenReader Background sch_prompt (fs_g content) u_g = Some (Inr (rd_g 0))"
  by (simp add: OpenReader_def select_prompt asyncOpenRead_def os_Open_def fs_g_def fs_dir_def
        u_g_def rd_g_def NewContextRespectingIoFile_def)

text \<open>
  C2, as stated: for every non-empty \<open>data\<close> and every URL, open for write, write
  \<open>data\<close>, close, open for read and read reproduce \<open>data\<close>. This fails on the null
  device: on \<open>/dev/null\<close> the open for write, the write of the three bytes, the close and
  the open for read all return without error, and the read under the background context
  returns 0 and \<open>io.EOF\<close> and leaves the buffer as it was.
\<close>

theorem write_read_devnull_counterexample:
  "OpenWriter Background sch_prompt fs_dev (u_file ''/dev/null'')
     = Some (Inr (fresh_writer ''/dev/null''), fs_dev)
   \<and> Write Background sch_prompt fs_dev (fresh_writer ''/dev/null'') [104, 0, 105]
       = Some (3, None, [104, 0, 105], fs_dev, fresh_writer ''/dev/null'')
   \<and> Close Background sch_prompt (fresh_writer ''/dev/null'') = Some None
   \<and> OpenReader Background sch_prompt fs_dev (u_file ''/dev/null'')
       = Some (Inr (rd_file ''/dev/null''))
   \<and> Read Background sch_prompt fs_dev (rd_file ''/dev/null'') [0, 0, 0]
       = Some (0, Some EOF, [0, 0, 0], rd_file ''/dev/null'')"
proof -
  have 1: "OpenWriter Background sch_prompt fs_dev (u_file ''/dev/null'')
             = Some (Inr (fresh_writer ''/dev/null''), fs_dev)"
    by (simp add: OpenWriter_def select_prompt asyncOpenWrite_def os_MkdirAll_def os_OpenFile_def
          fs_dev_def u_file_def O_WRONLY_def O_CREATE_def O_TRUNC_def O_APPEND_def
          NewContextRespectingIoFile_def fresh_writer_def op_at_prompt)
  have 2: "Write Background sch_prompt fs_dev (fresh_writer ''/dev/null'') [104, 0, 105]
             = Some (3, None, [104, 0, 105], fs_dev, fresh_writer ''/dev/null'')"
    by (simp add: Write_def select_prompt asyncWrite_def os_File_Write_def fs_dev_def
          fresh_writer_def copy_def op_at_prompt Let_def)
  have 3: "OpenReader Background sch_prompt fs_dev (u_file ''/dev/null'')
             = Some (Inr (rd_file ''/dev/null''))"
    by (simp add: OpenReader_def select_prompt asyncOpenRead_def os_Open_def fs_dev_def
          u_file_def rd_file_def NewContextRespectingIoFile_def)
  have 4: "Read Background sch_prompt fs_dev (rd_file ''/dev/null'') [0, 0, 0]
             = Some (0, Some EOF, [0, 0, 0], rd_file ''/dev/null'')"
    by (simp add: Read_def select_prompt asyncRead_def os_File_Read_def fs_dev_def rd_file_def
          op_at_prompt)
  from 1 2 3 4 Close_sample show ?thesis by simp
qed

text \<open>
  C2, amended: for every non-empty \<open>data\<close> of at most \<open>max_rw\<close> bytes (what one read
  transfers) and every URL that names a regular file that stores its bytes, or nothing
  yet: open for write,
  write \<open>data\<close>, close, open for read on the same URL and read under a context that is
  never done into a buffer that can hold \<open>data\<close>. When each step returns without error
  and the read of the system completes, \<open>Read\<close> returns the length of \<open>data\<close> and no
  error, and the buffer starts with \<open>data\<close>. The bytes of \<open>data\<close> are arbitrary (a zero
  byte is a byte like any other).
\<close>

theorem write_read_roundtrip:
  assumes "regular_or_new fs0 (Path u)" and "length data \<le> max_rw fs0"
      and "OpenWriter ctx1 sch1 fs0 u = Some (Inr w, fs1)"
      and "Write ctx2 sch2 fs1 w data = Some (n, None, b, fs2, w')"
      and "Close ctx3 sch3 w' = Some None"
      and "OpenReader ctx4 sch4 fs2 u = Some (Inr r)"
      and "done_at ctx5 = None" and "op_at sch5 \<noteq> None"
      and "data \<noteq> []" and "length data \<le> length p"
  shows "\<exists>p' r'. Read ctx5 sch5 fs2 r p = Some (length data, None, p', r')
            \<and> take (length data) p' = data"
proof -
  from OpenWriter_Inr[OF assms(3,1)]
  have 1: "nodes fs1 (Path u) = Some (File [])" "w = fresh_writer (Path u)"
          "max_rw fs1 = max_rw fs0"
    by simp_all
  from Write_fresh[OF 1(1) assms(4)[unfolded 1(2)]]
  have 2: "nodes fs2 (Path u) = Some (File data)" "max_rw fs2 = max_rw fs1"
    by simp_all
  from assms(2) 1(3) 2(2) have 3: "length data \<le> max_rw fs2" by simp
  from assms(8) obtain t where t: "op_at sch5 = Some t" by auto
  from Read_whole[OF 2(1) assms(9,10,7) t 3] OpenReader_Inr[OF assms(6)]
  show ?thesis by simp
qed

theorem write_read_roundtrip_witness:
  "regular_or_new fs_dir (Path u_g) \<and> length [104, 0, 105 :: byte] \<le> max_rw fs_dir
   \<and> OpenWriter Background sch_prompt fs_dir u_g = Some (Inr (fresh_writer ''/d/g''), fs_g [])
   \<and> Write Background sch_prompt (fs_g []) (fresh_writer ''/d/g'') [104, 0, 105]
       = Some (3, None, [104, 0, 105], fs_g [104, 0, 105],
               \<lparr>actualFile = \<lparr>fname = ''/d/g'', pos = 3, wronly = True, append = False\<rparr>\<rparr>)
   \<and> OpenReader Background sch_prompt (fs_g [104, 0, 105]) u_g = Some (Inr (rd_g 0))
   \<and> (\<exists>p' r'. Read Background sch_prompt (fs_g [104, 0, 105]) (rd_g 0) [0, 0, 0]
                 = Some (3, None, p', r') \<and> take 3 p' = [104, 0, 105])"
proof -
  have a: "regular_or_new fs_dir (Path u_g)"
    by (simp add: regular_or_new_def fs_dir_def u_g_def)
  have m: "length [104, 0, 105 :: byte] \<le> max_rw fs_dir"
    by (simp add: fs_dir_def)
  have "\<exists>p' r'. Read Background sch_prompt (fs_g [104, 0, 105]) (rd_g 0) [0, 0, 0]
                   = Some (length [104, 0, 105 :: byte], None, p', r')
                 \<and> take (length [104, 0, 105 :: byte]) p' = [104, 0, 105]"
    by (rule write_read_roundtrip[OF a m OpenWriter_sample Write_sample Close_sample
          OpenReader_sample])
       (simp_all add: Background_def op_at_prompt)
  with a m OpenWriter_sample Write_sample OpenReader_sample show ?thesis
    by (simp add: numeral_3_eq_3)
qed

subsection \<open>Open for append\<close>

text \<open>
  C5: \<open>OpenAppender\<close> passes the flags of \<open>OpenWriter\<close>, create and truncate and no
  append flag, so for every URL, context and schedule the two return the same; opening an
  existing file for append leaves it empty, the offset of the writer is not bound to the
  end, and after a write that returns no error the file holds the written bytes only.
\<close>

theorem OpenAppender_truncates:
  "OpenAppender ctx sch fs u = OpenWriter ctx sch fs u
   \<and> (\<forall>content h fs'.
         nodes fs (Path u) = Some (File content) \<and> OpenAppender ctx sch fs u = Some (Inr h, fs')
         \<longrightarrow> nodes fs' (Path u) = Some (File []) \<and> \<not> append (actualFile h)
             \<and> (\<forall>ctx' sch' data n b fs'' h'.
                   Write ctx' sch' fs' h data = Some (n, None, b, fs'', h')
                   \<longrightarrow> nodes fs'' (Path u) = Some (File data)))"
proof -
  have eq: "OpenAppender ctx sch fs u = OpenWriter ctx sch fs u"
    by (simp add: OpenAppender_def OpenWriter_def)
  have "nodes fs' (Path u) = Some (File []) \<and> \<not> append (actualFile h)
        \<and> (\<forall>ctx' sch' data n b fs'' h'.
              Write ctx' sch' fs' h data = Some (n, None, b, fs'', h')
              \<longrightarrow> nodes fs'' (Path u) = Some (File data))"
    if a: "OpenAppender ctx sch fs u = Some (Inr h, fs')"
      and c: "nodes fs (Path u) = Some (File content)" for h fs' content
  proof -
    from a eq have "OpenWriter ctx sch fs u = Some (Inr h, fs')" by simp
    moreover from c have "regular_or_new fs (Path u)" by (simp add: regular_or_new_def)
    ultimately
    have 1: "nodes fs' (Path u) = Some (File [])" and 2: "h = fresh_writer (Path u)"
      using OpenWriter_Inr by blast+
    from 2 have 3: "\<not> append (actualFile h)" by (simp add: fresh_writer_def)
    from 1 2 3 Write_fresh show ?thesis by blast
  qed
  with eq show ?thesis by blast
qed

theorem OpenAppender_truncates_witness:
  "nodes (fs_g [1, 2, 3]) (Path u_g) = Some (File [1, 2, 3])
   \<and> OpenAppender Background sch_prompt (fs_g [1, 2, 3]) u_g
       = Some (Inr (fresh_writer ''/d/g''), fs_g [])
   \<and> OpenAppender Background sch_prompt (fs_g [1, 2, 3]) u_g
       = OpenWriter Background sch_prompt (fs_g [1, 2, 3]) u_g
   \<and> nodes (fs_g []) (Path u_g) = Some (File [])"
proof -
  have a: "nodes (fs_g [1, 2, 3]) (Path u_g) = Some (File [1, 2, 3])"
    by (simp add: fs_g_def fs_dir_def u_g_def)
  have b: "OpenAppender Background sch_prompt (fs_g [1, 2, 3]) u_g
             = Some (Inr (fresh_writer ''/d/g''), fs_g [])"
    by (simp add: OpenAppender_def select_prompt asyncOpenWrite_def os_MkdirAll_def
          os_OpenFile_def fs_dir_def fs_g_def u_g_def O_WRONLY_def O_CREATE_def O_TRUNC_def
          O_APPEND_def NewContextRespectingIoFile_def fresh_writer_def op_at_prompt)
  from OpenAppender_truncates[of Background sch_prompt "fs_g [1, 2, 3]" u_g] a b
  show ?thesis by simp
qed

subsection \<open>Seek\<close>

text \<open>
  C4, as stated: for every offset and every file \<open>Seek\<close> positions the file at that
  offset from the start. This fails for a negative offset: on a regular file at offset
  5, \<open>Seek\<close> with offset \<open>-1\<close> returns 0 and \<open>EINVAL\<close>, and the file stays at offset 5.
  It fails for an offset beyond what the file system accepts: with offset \<open>2^62\<close> on the
  same file, \<open>EINVAL\<close> again and the file stays at offset 5. And it fails on a file that
  cannot seek: on a FIFO, \<open>Seek\<close> with offset 10 returns 0 and \<open>ESPIPE\<close>.
\<close>

theorem Seek_refused_counterexample:
  "Seek Background (fs_g bytes20) (rd_g 5) (- 1) io_SeekStart = (0, Some EINVAL, rd_g 5)
   \<and> Seek Background (fs_g bytes20) (rd_g 5) 0x4000000000000000 io_SeekStart
       = (0, Some EINVAL, rd_g 5)
   \<and> Seek Background fs_dev (rd_file ''/dev/fifo'') 10 io_SeekStart
       = (0, Some ESPIPE, rd_file ''/dev/fifo'')"
  by (simp add: Seek_def os_File_Seek_def rd_g_def rd_file_def io_SeekStart_def io_SeekCurrent_def
        io_SeekEnd_def fs_g_def fs_dir_def fs_dev_def)

text \<open>
  C4, amended: on a handle of a regular file that stores its bytes, for every offset from
  0 up to the greatest offset the file system accepts, every \<open>whence\<close> and every current offset, \<open>Seek\<close>
  returns the offset and no error and positions the file at that offset from the start,
  whatever \<open>whence\<close> is; for an offset that is negative or beyond that limit it returns
  \<open>EINVAL\<close> and leaves the file where it was, again whatever \<open>whence\<close> is. In
  particular \<open>Seek\<close> with offset 10 and \<open>whence\<close> for "from the current offset",
  after 5 bytes were read from offset 0, lands at offset 10, not 15: the instance that
  follows the theorem.
\<close>

theorem Seek_ignores_whence:
  assumes "regular_file fs f"
  shows "(0 \<le> sint offset \<and> sint offset \<le> int (max_offset fs) \<longrightarrow>
            Seek ctx fs f offset whence
              = (sint offset, None, f\<lparr>actualFile := (actualFile f)\<lparr>pos := nat (sint offset)\<rparr>\<rparr>))
       \<and> (sint offset < 0 \<or> int (max_offset fs) < sint offset \<longrightarrow>
            Seek ctx fs f offset whence = (0, Some EINVAL, f))"
  using assms
  by (auto simp: Seek_def os_File_Seek_def io_SeekStart_def io_SeekCurrent_def io_SeekEnd_def
        regular_file_def Let_def split: option.splits node.splits)

theorem Seek_ignores_whence_witness:
  "regular_file (fs_g bytes20) (rd_g 5)
   \<and> Read Background sch_prompt (fs_g bytes20) (rd_g 0) [0, 0, 0, 0, 0]
       = Some (5, None, [1, 2, 3, 4, 5], rd_g 5)
   \<and> sint (10 :: 64 word) = 10 \<and> (10 :: int) \<le> int (max_offset (fs_g bytes20))
   \<and> Seek Background (fs_g bytes20) (rd_g 5) 10 io_SeekCurrent = (10, None, rd_g 10)
   \<and> Tell Background (fs_g bytes20) (rd_g 10) = (10, None, rd_g 10)"
proof -
  have r: "regular_file (fs_g bytes20) (rd_g 5)"
    by (simp add: regular_file_def fs_g_def fs_dir_def rd_g_def)
  have a: "Read Background sch_prompt (fs_g bytes20) (rd_g 0) [0, 0, 0, 0, 0]
             = Some (5, None, [1, 2, 3, 4, 5], rd_g 5)"
    by (simp add: Read_def select_prompt asyncRead_def os_File_Read_def fs_g_def fs_dir_def
          rd_g_def bytes20_def copy_def op_at_prompt)
  have b: "Tell Background (fs_g bytes20) (rd_g 10) = (10, None, rd_g 10)"
    by (simp add: Tell_def os_File_Seek_def rd_g_def io_SeekStart_def io_SeekCurrent_def
          io_SeekEnd_def fs_g_def fs_dir_def)
  have m: "sint (10 :: 64 word) = 10" "(10 :: int) \<le> int (max_offset (fs_g bytes20))"
    by (simp_all add: fs_g_def fs_dir_def)
  from Seek_ignores_whence[OF r, of 10 Background io_SeekCurrent] a b m r
  show ?thesis by (simp add: rd_g_def)
qed

subsection \<open>The actions of the watcher's setup\<close>

lemma report_child_scan:
  "report_child e ctx cbf dpath name = Some (res, tr) \<Longrightarrow> a \<in> set tr \<Longrightarrow> is_scan a"
  by (auto simp: report_child_def split: sum.splits option.splits)

lemma scan_children_scan:
  "scan_children e ctx cbf dpath names = Some (res, tr) \<Longrightarrow> a \<in> set tr \<Longrightarrow> is_scan a"
proof (induction names arbitrary: res tr)
  case Nil
  then show ?case by simp
next
  case (Cons name names)
  show ?case
  proof (cases "report_child e ctx cbf dpath name")
    case None
    with Cons.prems show ?thesis by simp
  next
    case (Some r)
    obtain r1 t1 where r: "r = (r1, t1)" by (cases r)
    show ?thesis
    proof (cases r1)
      case (Some err)
      with Cons.prems \<open>report_child e ctx cbf dpath name = Some r\<close> r
      show ?thesis by (auto dest: report_child_scan)
    next
      case None
      with Cons.prems \<open>report_child e ctx cbf dpath name = Some r\<close> r
      obtain t2 where 2: "scan_children e ctx cbf dpath names = Some (res, t2)"
        and 3: "tr = t1 @ t2"
        by (auto split: option.splits prod.splits)
      from 3 Cons.prems(2) have "a \<in> set t1 \<or> a \<in> set t2" by simp
      then show ?thesis
      proof
        assume "a \<in> set t1"
        with \<open>report_child e ctx cbf dpath name = Some r\<close> r show ?thesis
          by (auto dest: report_child_scan)
      next
        assume "a \<in> set t2"
        with Cons.IH[OF 2] show ?thesis by simp
      qed
    qed
  qed
qed

lemma report_child_None:
  "report_child e ctx cbf dpath name = Some (None, tr) \<Longrightarrow>
     \<exists>a b. tr = [a, b] \<and> \<not> is_Callback a \<and> is_Callback b \<and> child_report e ctx cbf dpath name b
        \<and> child_opened e ctx dpath name"
  by (auto simp: report_child_def child_report_def child_opened_def split: sum.splits option.splits)

lemma scan_children_reports:
  "scan_children e ctx cbf dpath names = Some (None, tr) \<Longrightarrow>
     list_all2 (child_report e ctx cbf dpath) names (filter is_Callback tr)"
proof (induction names arbitrary: tr)
  case Nil
  then show ?case by simp
next
  case (Cons name names)
  from Cons.prems obtain t1 t2 where
    1: "report_child e ctx cbf dpath name = Some (None, t1)" and
    2: "scan_children e ctx cbf dpath names = Some (None, t2)" and
    3: "tr = t1 @ t2"
    by (auto split: option.splits prod.splits)
  from report_child_None[OF 1] Cons.IH[OF 2] 3 show ?case by auto
qed

lemma scan_children_returns:
  "\<forall>name\<in>set names. child_opened e ctx dpath name \<Longrightarrow>
     \<exists>tr. scan_children e ctx cbf dpath names = Some (None, tr)"
proof (induction names)
  case Nil
  then show ?case by simp
next
  case (Cons name names)
  then obtain tr where 1: "scan_children e ctx cbf dpath names = Some (None, tr)" by auto
  from Cons.prems have "child_opened e ctx dpath name" by simp
  then obtain t1 where "report_child e ctx cbf dpath name = Some (None, t1)"
    by (auto simp: child_opened_def report_child_def split: sum.splits option.splits)
  with 1 show ?case by simp
qed

lemma scan_directory_scan:
  "scan_directory e ctx cbf rp = Some (res, tr) \<Longrightarrow> a \<in> set tr \<Longrightarrow> is_scan a"
  by (auto simp: scan_directory_def split: sum.splits option.splits prod.splits
        dest: scan_children_scan)

lemma report_file_scan:
  "report_file e ctx cbf rp = Some (res, tr) \<Longrightarrow> a \<in> set tr \<Longrightarrow> is_scan a"
  by (auto simp: report_file_def split: sum.splits option.splits)

lemma initial_scan_scan:
  "initial_scan e ctx cbf rp rfi = Some (res, tr) \<Longrightarrow> a \<in> set tr \<Longrightarrow> is_scan a"
  by (auto simp: initial_scan_def split: if_splits dest: scan_directory_scan report_file_scan)

lemma NewFileWatcher_Inr:
  assumes "NewFileWatcher e ctx p cbf = Some (Inr fw, tr)"
  shows "\<exists>w fi rp rfi tr'.
           fsnotify_NewWatcher e = Inr w \<and> os_Stat e (Path p) = Inr fi
         \<and> resolve_symlinks e p fi = Some (Inr (rp, rfi))
         \<and> watcher_Add e w (Path rp) = None
         \<and> initial_scan e ctx cbf rp rfi = Some (None, tr')
         \<and> tr = NewWatcher w # WatcherAdd w (Path rp) # tr' @ [GoWatchForChanges]
         \<and> fw = \<lparr>cb = cbf, watcher = w, path = p, shutdown = False\<rparr>"
  using assms unfolding NewFileWatcher_def Let_def
  by (auto split: sum.splits option.splits prod.splits)

lemma is_scan_not_live:
  "is_scan a \<Longrightarrow> \<not> is_live a \<and> a \<noteq> GoWatchForChanges \<and> (\<forall>err. a \<noteq> SendError err)"
  by (cases a) auto

lemma scan_directory_None:
  assumes "scan_directory e ctx cbf rp = Some (None, tr)"
      and "url_Parse e rp (Path rp @ ''/'') = Inr dpath"
      and "os_Open (fsys e) (Path rp) = Inr f" and "Readdirnames e f = Inr names"
  shows "\<exists>t. scan_children e ctx cbf dpath names = Some (None, t)
             \<and> filter is_Callback tr = filter is_Callback t"
  using assms
  by (auto simp: scan_directory_def split: option.splits prod.splits)

lemma select_ctx_completes_first:
  "completes_first ctx sch \<Longrightarrow> select_ctx ctx sch = Some OpDone"
  by (auto simp: completes_first_def select_ctx_def ready_def split: option.splits)

lemma os_Open_Inr:
  "os_Open fs name = Inr f \<Longrightarrow> f = \<lparr>fname = name, pos = 0, wronly = False, append = False\<rparr>"
  by (auto simp: os_Open_def split: option.splits)

lemma child_report_fresh:
  assumes "child_openable e rp name" and "child_resolves e rp dpath name"
      and "completes_first ctx (open_sched e (child_path rp name))"
      and "child_report e ctx cbf dpath name a"
  shows "fresh_report e cbf rp dpath name a"
proof -
  from assms(2) obtain combined where
    p: "url_Parse e dpath name = Inr combined" and q: "Path combined = child_path rp name"
    by (auto simp: child_resolves_def split: sum.splits)
  from assms(1) obtain f where o: "os_Open (fsys e) (child_path rp name) = Inr f"
    by (auto simp: child_openable_def split: sum.splits)
  from os_Open_Inr[OF o] have f: "NewContextRespectingIoFile f = fresh_reader (child_path rp name)"
    by (simp add: NewContextRespectingIoFile_def fresh_reader_def)
  from select_ctx_completes_first[OF assms(3)] o f q
  have "OpenReader ctx (open_sched e (Path combined)) (fsys e) combined
          = Some (Inr (fresh_reader (child_path rp name)))"
    by (simp add: OpenReader_def asyncOpenRead_def)
  with assms(4) p q show ?thesis
    by (simp add: child_report_def fresh_report_def)
qed

subsection \<open>The sample directory\<close>

lemma resolve_symlinks_no_link:
  "Mode fi AND os_ModeSymlink \<noteq> os_ModeSymlink \<Longrightarrow> resolve_symlinks e p fi = Some (Inr (p, fi))"
  by (subst resolve_symlinks.simps) simp

lemma Path_u_file: "Path (u_file n) = n"
  by (simp add: u_file_def)

lemma env_sample_fields:
  "fsys (env_sample rm names) = fs_two"
  "fsnotify_NewWatcher (env_sample rm names) = Inr 7"
  "os_Stat (env_sample rm names) ''/d'' = Inr \<lparr>Mode = os_ModeDir\<rparr>"
  "os_Stat (env_sample rm names) ''/missing'' = Inl ENOENT"
  "watcher_Add (env_sample rm names) w n = None"
  "watcher_Remove (env_sample rm names) = rm"
  "watcher_Close (env_sample rm names) w = None"
  "open_sched (env_sample rm names) n = sch_prompt"
  "Readdirnames (env_sample rm names) \<lparr>fname = ''/d'', pos = 0, wronly = False, append = False\<rparr>
     = Inr names"
  "url_Parse (env_sample rm names) (u_file ''/d'') ''/d/'' = Inr (u_file ''/d/'')"
  "url_Parse (env_sample rm names) (u_file ''/d/'') ''a.txt'' = Inr (u_file ''/d/a.txt'')"
  "url_Parse (env_sample rm names) (u_file ''/d/'') ''b.txt'' = Inr (u_file ''/d/b.txt'')"
  "url_Parse (env_sample rm names) (u_file ''/d/'') ''gone'' = Inr (u_file ''/d/gone'')"
  by (simp_all add: env_sample_def u_file_def)

lemma os_Open_d:
  "os_Open fs_two ''/d'' = Inr \<lparr>fname = ''/d'', pos = 0, wronly = False, append = False\<rparr>"
  by (simp add: os_Open_def fs_two_def)

lemma resolve_d:
  "resolve_symlinks e (u_file ''/d'') \<lparr>Mode = os_ModeDir\<rparr>
     = Some (Inr (u_file ''/d'', \<lparr>Mode = os_ModeDir\<rparr>))"
  by (rule resolve_symlinks_no_link) (simp add: os_ModeDir_def os_ModeSymlink_def)

lemma IsDir_d: "IsDir \<lparr>Mode = os_ModeDir\<rparr>"
  by (simp add: IsDir_def os_ModeDir_def)

lemma OpenReader_two:
  "n = ''/d/a.txt'' \<or> n = ''/d/b.txt'' \<Longrightarrow>
   OpenReader Background sch_prompt fs_two (u_file n) = Some (Inr (rd_file n))"
  by (auto simp: OpenReader_def select_prompt asyncOpenRead_def os_Open_def fs_two_def
        u_file_def rd_file_def NewContextRespectingIoFile_def)

lemma OpenReader_gone:
  "OpenReader Background sch_prompt fs_two (u_file ''/d/gone'') = Some (Inl ENOENT)"
  by (simp add: OpenReader_def select_prompt asyncOpenRead_def os_Open_def fs_two_def u_file_def)

lemma scan_children_two:
  "scan_children (env_sample rm names) Background 3 (u_file ''/d/'') [''a.txt'', ''b.txt'']
     = Some (None, [OpenReaderCall (u_file ''/d/a.txt''),
                    Callback 3 (u_file ''/d/a.txt'') (Some (rd_file ''/d/a.txt'')),
                    OpenReaderCall (u_file ''/d/b.txt''),
                    Callback 3 (u_file ''/d/b.txt'') (Some (rd_file ''/d/b.txt''))])"
  by (simp add: report_child_def env_sample_fields OpenReader_two Path_u_file)

lemma scan_directory_two:
  "scan_directory (env_sample rm [''a.txt'', ''b.txt'']) Background 3 (u_file ''/d'')
     = Some (None, [OpenDir ''/d'', ReadDir ''/d'',
                    OpenReaderCall (u_file ''/d/a.txt''),
                    Callback 3 (u_file ''/d/a.txt'') (Some (rd_file ''/d/a.txt'')),
                    OpenReaderCall (u_file ''/d/b.txt''),
                    Callback 3 (u_file ''/d/b.txt'') (Some (rd_file ''/d/b.txt'')),
                    CloseDir ''/d''])"
  by (simp add: scan_directory_def env_sample_fields os_Open_d scan_children_two Path_u_file
        del: scan_children.simps)

lemma NewFileWatcher_two:
  "NewFileWatcher (env_sample rm [''a.txt'', ''b.txt'']) Background (u_file ''/d'') 3
     = Some (Inr (fw_two ''/d''), tr_two)"
  by (simp add: NewFileWatcher_def env_sample_fields resolve_d initial_scan_def IsDir_d
        scan_directory_two Path_u_file fw_two_def tr_two_def)

lemma child_opened_gone:
  "\<forall>name\<in>set [''a.txt'', ''gone''].
      child_opened (env_sample rm [''a.txt'', ''gone'']) Background (u_file ''/d/'') name"
  by (simp add: child_opened_def env_sample_fields OpenReader_two OpenReader_gone Path_u_file)

lemma select_cancelled_prompt: "select_ctx ctx_cancelled sch_prompt = Some CtxDone"
  by (simp add: select_ctx_def ctx_cancelled_def sch_prompt_def ready_def)

lemma NewFileWatcher_cancelled:
  "NewFileWatcher env_two ctx_cancelled (u_file ''/d'') 3 = Some (Inr (fw_two ''/d''), tr_nil)"
proof -
  have r: "report_child env_two ctx_cancelled 3 (u_file ''/d/'') ''a.txt''
             = Some (None, [OpenReaderCall (u_file ''/d/a.txt''),
                            Callback 3 (u_file ''/d/a.txt'') None])"
          "report_child env_two ctx_cancelled 3 (u_file ''/d/'') ''b.txt''
             = Some (None, [OpenReaderCall (u_file ''/d/b.txt''),
                            Callback 3 (u_file ''/d/b.txt'') None])"
    by (simp_all add: report_child_def env_two_def env_sample_fields OpenReader_def
          select_cancelled_prompt)
  have c: "scan_children env_two ctx_cancelled 3 (u_file ''/d/'') [''a.txt'', ''b.txt'']
             = Some (None, [OpenReaderCall (u_file ''/d/a.txt''),
                            Callback 3 (u_file ''/d/a.txt'') None,
                            OpenReaderCall (u_file ''/d/b.txt''),
                            Callback 3 (u_file ''/d/b.txt'') None])"
    by (simp add: r)
  have d: "scan_directory env_two ctx_cancelled 3 (u_file ''/d'')
             = Some (None, [OpenDir ''/d'', ReadDir ''/d'',
                            OpenReaderCall (u_file ''/d/a.txt''),
                            Callback 3 (u_file ''/d/a.txt'') None,
                            OpenReaderCall (u_file ''/d/b.txt''),
                            Callback 3 (u_file ''/d/b.txt'') None,
                            CloseDir ''/d''])"
    using c
    by (simp add: scan_directory_def env_two_def env_sample_fields os_Open_d Path_u_file
          del: scan_children.simps)
  show ?thesis
    using d
    by (simp add: NewFileWatcher_def env_two_def env_sample_fields resolve_d initial_scan_def
          IsDir_d Path_u_file fw_two_def tr_nil_def)
qed

lemma env_q_fields:
  "fsys env_q = fs_q"
  "fsnotify_NewWatcher env_q = Inr 7"
  "os_Stat env_q ''/d'' = Inr \<lparr>Mode = os_ModeDir\<rparr>"
  "watcher_Add env_q w n = None"
  "open_sched env_q n = sch_prompt"
  "Readdirnames env_q f = Inr [''a'', ''a?x'']"
  "url_Parse env_q (u_file ''/d'') ''/d/'' = Inr (u_file ''/d/'')"
  "url_Parse env_q (u_file ''/d/'') ''a'' = Inr (u_file ''/d/a'')"
  "url_Parse env_q (u_file ''/d/'') ''a?x'' = Inr (u_file ''/d/a'')"
  by (simp_all add: env_q_def env_two_def env_sample_def u_file_def)

lemma OpenReader_q:
  "OpenReader Background sch_prompt fs_q (u_file ''/d/a'') = Some (Inr (rd_file ''/d/a''))"
  by (simp add: OpenReader_def select_prompt asyncOpenRead_def os_Open_def fs_q_def
        u_file_def rd_file_def NewContextRespectingIoFile_def)

lemma NewFileWatcher_q:
  "NewFileWatcher env_q Background (u_file ''/d'') 3 = Some (Inr (fw_two ''/d''), tr_q)"
proof -
  have c: "scan_children env_q Background 3 (u_file ''/d/'') [''a'', ''a?x'']
             = Some (None, [OpenReaderCall (u_file ''/d/a''),
                            Callback 3 (u_file ''/d/a'') (Some (rd_file ''/d/a'')),
                            OpenReaderCall (u_file ''/d/a''),
                            Callback 3 (u_file ''/d/a'') (Some (rd_file ''/d/a''))])"
    by (simp add: report_child_def env_q_fields OpenReader_q Path_u_file)
  have o: "os_Open fs_q ''/d'' = Inr \<lparr>fname = ''/d'', pos = 0, wronly = False, append = False\<rparr>"
    by (simp add: os_Open_def fs_q_def)
  have d: "scan_directory env_q Background 3 (u_file ''/d'')
             = Some (None, [OpenDir ''/d'', ReadDir ''/d'',
                            OpenReaderCall (u_file ''/d/a''),
                            Callback 3 (u_file ''/d/a'') (Some (rd_file ''/d/a'')),
                            OpenReaderCall (u_file ''/d/a''),
                            Callback 3 (u_file ''/d/a'') (Some (rd_file ''/d/a'')),
                            CloseDir ''/d''])"
    using c
    by (simp add: scan_directory_def env_q_fields o Path_u_file del: scan_children.simps)
  show ?thesis
    using d
    by (simp add: NewFileWatcher_def env_q_fields resolve_d initial_scan_def IsDir_d
          Path_u_file fw_two_def tr_q_def)
qed

lemma children_two_fresh:
  "child_openable env_two (u_file ''/d'') ''a.txt''"
  "child_openable env_two (u_file ''/d'') ''b.txt''"
  "child_resolves env_two (u_file ''/d'') (u_file ''/d/'') ''a.txt''"
  "child_resolves env_two (u_file ''/d'') (u_file ''/d/'') ''b.txt''"
  "completes_first Background (open_sched env_two (child_path (u_file ''/d'') ''a.txt''))"
  "completes_first Background (open_sched env_two (child_path (u_file ''/d'') ''b.txt''))"
  by (simp_all add: child_openable_def child_resolves_def completes_first_def child_path_def
        env_two_def env_sample_fields Path_u_file os_Open_def fs_two_def Background_def
        op_at_prompt)

subsection \<open>The watch is registered before the scan\<close>

text \<open>
  C3: in every run of \<open>NewFileWatcher\<close> that returns a watcher, the actions are the
  creation of the watcher, the registration of the watch on the path the links resolved
  to, then the actions of the initial scan (opening, listing and closing the directory,
  opening the readers, the callbacks) and last the start of the loop: every action of
  the scan comes after the registration.
\<close>

theorem watch_registered_before_scan:
  assumes "NewFileWatcher e ctx p cbf = Some (Inr fw, tr)"
  shows "\<exists>fi rp rfi scan.
           os_Stat e (Path p) = Inr fi \<and> resolve_symlinks e p fi = Some (Inr (rp, rfi))
         \<and> tr = NewWatcher (watcher fw) # WatcherAdd (watcher fw) (Path rp) # scan
                  @ [GoWatchForChanges]
         \<and> (\<forall>a\<in>set scan. is_scan a)
         \<and> (\<forall>a\<in>set tr. is_scan a \<longrightarrow> a \<in> set scan)"
proof -
  from NewFileWatcher_Inr[OF assms] obtain w fi rp rfi tr' where
    1: "os_Stat e (Path p) = Inr fi" "resolve_symlinks e p fi = Some (Inr (rp, rfi))" and
    2: "initial_scan e ctx cbf rp rfi = Some (None, tr')" and
    3: "tr = NewWatcher w # WatcherAdd w (Path rp) # tr' @ [GoWatchForChanges]" and
    4: "fw = \<lparr>cb = cbf, watcher = w, path = p, shutdown = False\<rparr>"
    by blast
  from 2 have "\<forall>a\<in>set tr'. is_scan a"
    by (auto dest: initial_scan_scan)
  with 1 3 4 show ?thesis by auto
qed


theorem watch_registered_before_scan_witness:
  "NewFileWatcher env_two Background (u_file ''/d'') 3 = Some (Inr (fw_two ''/d''), tr_two)
   \<and> (\<exists>fi rp rfi scan.
         os_Stat env_two (Path (u_file ''/d'')) = Inr fi
       \<and> resolve_symlinks env_two (u_file ''/d'') fi = Some (Inr (rp, rfi))
       \<and> tr_two = NewWatcher 7 # WatcherAdd 7 (Path rp) # scan @ [GoWatchForChanges]
       \<and> (\<forall>a\<in>set scan. is_scan a))"
  using watch_registered_before_scan[OF NewFileWatcher_two[of "\<lambda>w n. None"]]
    NewFileWatcher_two[of "\<lambda>w n. None"]
  by (auto simp: fw_two_def env_two_def)

subsection \<open>The initial reports\<close>

text \<open>
  C6, as stated: on a directory whose children are all readable the setup calls the
  callback once per child with a reader just opened for that child. This fails when the
  context is done before the opens complete: on the sample directory, whose two children
  the system opens, the setup under the cancelled context returns a watcher and both
  callbacks get the nil reader. And it fails when a name does not resolve to the child: in
  a directory with the children \<open>a\<close> and \<open>a?x\<close>, both readable, both callbacks get the
  URL and a reader of \<open>/d/a\<close>, and none a reader of \<open>/d/a?x\<close>.
\<close>

theorem initial_reports_counterexample:
  "child_openable env_two (u_file ''/d'') ''a.txt''
   \<and> child_openable env_two (u_file ''/d'') ''b.txt''
   \<and> NewFileWatcher env_two ctx_cancelled (u_file ''/d'') 3 = Some (Inr (fw_two ''/d''), tr_nil)
   \<and> filter is_Callback tr_nil
       = [Callback 3 (u_file ''/d/a.txt'') None, Callback 3 (u_file ''/d/b.txt'') None]
   \<and> child_openable env_q (u_file ''/d'') ''a''
   \<and> child_openable env_q (u_file ''/d'') ''a?x''
   \<and> NewFileWatcher env_q Background (u_file ''/d'') 3 = Some (Inr (fw_two ''/d''), tr_q)
   \<and> filter is_Callback tr_q
       = [Callback 3 (u_file ''/d/a'') (Some (rd_file ''/d/a'')),
          Callback 3 (u_file ''/d/a'') (Some (rd_file ''/d/a''))]"
proof -
  have 1: "child_openable env_two (u_file ''/d'') ''a.txt''"
          "child_openable env_two (u_file ''/d'') ''b.txt''"
    by (simp_all add: child_openable_def child_path_def env_two_def env_sample_fields
          Path_u_file os_Open_def fs_two_def)
  have 2: "child_openable env_q (u_file ''/d'') ''a''"
          "child_openable env_q (u_file ''/d'') ''a?x''"
    by (simp_all add: child_openable_def child_path_def env_q_fields Path_u_file os_Open_def
          fs_q_def)
  have 3: "filter is_Callback tr_nil
             = [Callback 3 (u_file ''/d/a.txt'') None, Callback 3 (u_file ''/d/b.txt'') None]"
          "filter is_Callback tr_q
             = [Callback 3 (u_file ''/d/a'') (Some (rd_file ''/d/a'')),
                Callback 3 (u_file ''/d/a'') (Some (rd_file ''/d/a''))]"
    by (simp_all add: tr_nil_def tr_q_def)
  from 1 2 3 NewFileWatcher_cancelled NewFileWatcher_q show ?thesis by simp
qed

text \<open>
  C6, amended: in a run of \<open>NewFileWatcher\<close> that returns a watcher, on a directory whose
  children are all readable, have names that resolve to the children, and are opened
  before the context is done, the callbacks of the run are, child by child in the order
  of the enumeration, one call with the URL of the child and a reader just opened on the
  path of the child; on a single file the callbacks are one call with the path and a
  reader just opened on it; and the run's last action is the start of the loop, which
  alone reports live events, so that no live report comes before the initial ones.
\<close>

theorem initial_reports:
  assumes "NewFileWatcher e ctx p cbf = Some (Inr fw, tr)"
      and "os_Stat e (Path p) = Inr fi" and "resolve_symlinks e p fi = Some (Inr (rp, rfi))"
  shows "(IsDir rfi \<longrightarrow>
            (\<forall>dpath f names.
               url_Parse e rp (Path rp @ ''/'') = Inr dpath \<and> os_Open (fsys e) (Path rp) = Inr f
               \<and> Readdirnames e f = Inr names
               \<and> (\<forall>name\<in>set names.
                     child_openable e rp name \<and> child_resolves e rp dpath name
                     \<and> completes_first ctx (open_sched e (child_path rp name)))
               \<longrightarrow> list_all2 (fresh_report e cbf rp dpath) names (filter is_Callback tr)))
       \<and> (\<not> IsDir rfi \<longrightarrow>
            filter is_Callback tr = [Callback cbf rp (Some (fresh_reader (Path rp)))])
       \<and> (\<exists>pre. tr = pre @ [GoWatchForChanges]
                \<and> (\<forall>a\<in>set pre. \<not> is_live a \<and> a \<noteq> GoWatchForChanges))"
proof -
  from NewFileWatcher_Inr[OF assms(1)] assms(2,3) obtain w tr' where
    scan: "initial_scan e ctx cbf rp rfi = Some (None, tr')" and
    tr: "tr = NewWatcher w # WatcherAdd w (Path rp) # tr' @ [GoWatchForChanges]"
    by auto
  have cbs: "filter is_Callback tr = filter is_Callback tr'" by (simp add: tr)
  have dir: "list_all2 (fresh_report e cbf rp dpath) names (filter is_Callback tr)"
    if d: "IsDir rfi" and p: "url_Parse e rp (Path rp @ ''/'') = Inr dpath"
      and o: "os_Open (fsys e) (Path rp) = Inr f" and n: "Readdirnames e f = Inr names"
      and r: "\<forall>name\<in>set names.
                child_openable e rp name \<and> child_resolves e rp dpath name
                \<and> completes_first ctx (open_sched e (child_path rp name))"
    for dpath f names
  proof -
    from scan d have "scan_directory e ctx cbf rp = Some (None, tr')"
      by (simp add: initial_scan_def)
    from scan_directory_None[OF this p o n] obtain t where
      t: "scan_children e ctx cbf dpath names = Some (None, t)"
         "filter is_Callback tr' = filter is_Callback t"
      by blast
    from scan_children_reports[OF t(1)]
    have "list_all2 (child_report e ctx cbf dpath) names (filter is_Callback t)" .
    then have "list_all2 (fresh_report e cbf rp dpath) names (filter is_Callback t)"
      by (rule list.rel_mono_strong) (use r child_report_fresh in blast)
    with cbs t(2) show ?thesis by simp
  qed
  have fil: "filter is_Callback tr = [Callback cbf rp (Some (fresh_reader (Path rp)))]"
    if "\<not> IsDir rfi"
  proof -
    from scan that have "report_file e ctx cbf rp = Some (None, tr')"
      by (simp add: initial_scan_def)
    then obtain reader where
      1: "OpenReader ctx (open_sched e (Path rp)) (fsys e) rp = Some (Inr reader)" and
      2: "tr' = [OpenReaderCall rp, Callback cbf rp (Some reader)]"
      by (auto simp: report_file_def split: option.splits sum.splits)
    from OpenReader_Inr[OF 1] 2 cbs show ?thesis by (simp add: fresh_reader_def)
  qed
  have "\<forall>a\<in>set (NewWatcher w # WatcherAdd w (Path rp) # tr'). \<not> is_live a \<and> a \<noteq> GoWatchForChanges"
    using initial_scan_scan[OF scan] is_scan_not_live by auto
  with tr have "\<exists>pre. tr = pre @ [GoWatchForChanges]
                \<and> (\<forall>a\<in>set pre. \<not> is_live a \<and> a \<noteq> GoWatchForChanges)"
    by (intro exI[of _ "NewWatcher w # WatcherAdd w (Path rp) # tr'"]) simp
  with dir fil show ?thesis by blast
qed

theorem initial_reports_witness:
  "NewFileWatcher env_two Background (u_file ''/d'') 3 = Some (Inr (fw_two ''/d''), tr_two)
   \<and> IsDir \<lparr>Mode = os_ModeDir\<rparr>
   \<and> child_openable env_two (u_file ''/d'') ''a.txt''
   \<and> child_openable env_two (u_file ''/d'') ''b.txt''
   \<and> child_resolves env_two (u_file ''/d'') (u_file ''/d/'') ''a.txt''
   \<and> child_resolves env_two (u_file ''/d'') (u_file ''/d/'') ''b.txt''
   \<and> completes_first Background (open_sched env_two (child_path (u_file ''/d'') ''a.txt''))
   \<and> completes_first Background (open_sched env_two (child_path (u_file ''/d'') ''b.txt''))
   \<and> list_all2 (fresh_report env_two 3 (u_file ''/d'') (u_file ''/d/''))
        [''a.txt'', ''b.txt''] (filter is_Callback tr_two)
   \<and> filter is_Callback tr_two
       = [Callback 3 (u_file ''/d/a.txt'') (Some (fresh_reader ''/d/a.txt'')),
          Callback 3 (u_file ''/d/b.txt'') (Some (fresh_reader ''/d/b.txt''))]
   \<and> (\<exists>pre. tr_two = pre @ [GoWatchForChanges]
            \<and> (\<forall>a\<in>set pre. \<not> is_live a \<and> a \<noteq> GoWatchForChanges))"
proof -
  have n: "NewFileWatcher env_two Background (u_file ''/d'') 3 = Some (Inr (fw_two ''/d''), tr_two)"
    unfolding env_two_def by (rule NewFileWatcher_two)
  have s: "os_Stat env_two (Path (u_file ''/d'')) = Inr \<lparr>Mode = os_ModeDir\<rparr>"
    by (simp add: env_two_def env_sample_fields Path_u_file)
  have p: "url_Parse env_two (u_file ''/d'') (Path (u_file ''/d'') @ ''/'') = Inr (u_file ''/d/'')"
    by (simp add: env_two_def env_sample_fields Path_u_file)
  have o: "os_Open (fsys env_two) (Path (u_file ''/d''))
             = Inr \<lparr>fname = ''/d'', pos = 0, wronly = False, append = False\<rparr>"
    by (simp add: env_two_def env_sample_fields Path_u_file os_Open_d)
  have r: "Readdirnames env_two \<lparr>fname = ''/d'', pos = 0, wronly = False, append = False\<rparr>
             = Inr [''a.txt'', ''b.txt'']"
    by (simp add: env_two_def env_sample_fields)
  have l: "filter is_Callback tr_two
       = [Callback 3 (u_file ''/d/a.txt'') (Some (fresh_reader ''/d/a.txt'')),
          Callback 3 (u_file ''/d/b.txt'') (Some (fresh_reader ''/d/b.txt''))]"
    by (simp add: tr_two_def fresh_reader_def rd_file_def)
  have a: "\<forall>name\<in>set [''a.txt'', ''b.txt''].
             child_openable env_two (u_file ''/d'') name
             \<and> child_resolves env_two (u_file ''/d'') (u_file ''/d/'') name
             \<and> completes_first Background (open_sched env_two (child_path (u_file ''/d'') name))"
    using children_two_fresh by simp
  from initial_reports[OF n s resolve_d] IsDir_d p o r a n l children_two_fresh
  show ?thesis by blast
qed

subsection \<open>The error of opening a child\<close>

text \<open>
  C10: in the scan of a directory the error of \<open>OpenReader\<close> is not looked at. When the
  run reaches the scan and every name resolves and every open returns, with a reader or
  with an error, \<open>NewFileWatcher\<close> returns a watcher and no error, the callbacks are one
  per child in the order of the enumeration, with the nil reader where the open failed,
  and nothing is sent on the error channel.
\<close>

theorem open_error_discarded:
  assumes "fsnotify_NewWatcher e = Inr w" and "os_Stat e (Path p) = Inr fi"
      and "resolve_symlinks e p fi = Some (Inr (rp, rfi))"
      and "watcher_Add e w (Path rp) = None" and "IsDir rfi"
      and "url_Parse e rp (Path rp @ ''/'') = Inr dpath"
      and "os_Open (fsys e) (Path rp) = Inr f" and "Readdirnames e f = Inr names"
      and "\<forall>name\<in>set names. child_opened e ctx dpath name"
  shows "\<exists>fw tr. NewFileWatcher e ctx p cbf = Some (Inr fw, tr)
               \<and> list_all2 (child_report e ctx cbf dpath) names (filter is_Callback tr)
               \<and> (\<forall>err. SendError err \<notin> set tr)"
proof -
  from scan_children_returns[OF assms(9)] obtain t where
    t: "scan_children e ctx cbf dpath names = Some (None, t)" by blast
  let ?tr' = "OpenDir (Path rp) # ReadDir (Path rp) # t @ [CloseDir (Path rp)]"
  let ?tr = "NewWatcher w # WatcherAdd w (Path rp) # ?tr' @ [GoWatchForChanges]"
  from t assms(6,7,8) have sd: "scan_directory e ctx cbf rp = Some (None, ?tr')"
    by (simp add: scan_directory_def)
  with assms(5) have i: "initial_scan e ctx cbf rp rfi = Some (None, ?tr')"
    by (simp add: initial_scan_def)
  with assms(1,2,3,4)
  have n: "NewFileWatcher e ctx p cbf
             = Some (Inr \<lparr>cb = cbf, watcher = w, path = p, shutdown = False\<rparr>, ?tr)"
    by (simp add: NewFileWatcher_def)
  have c: "filter is_Callback ?tr = filter is_Callback t" by simp
  from scan_children_reports[OF t]
  have r: "list_all2 (child_report e ctx cbf dpath) names (filter is_Callback ?tr)"
    unfolding c .
  have "\<forall>a\<in>set t. \<forall>err. a \<noteq> SendError err"
    using scan_children_scan[OF t] is_scan_not_live by blast
  then have s: "\<forall>err. SendError err \<notin> set ?tr" by auto
  from n r s show ?thesis by blast
qed

theorem open_error_discarded_witness:
  "IsDir \<lparr>Mode = os_ModeDir\<rparr>
   \<and> child_opened (env_sample (\<lambda>w n. None) [''a.txt'', ''gone'']) Background (u_file ''/d/'')
        ''a.txt''
   \<and> child_opened (env_sample (\<lambda>w n. None) [''a.txt'', ''gone'']) Background (u_file ''/d/'')
        ''gone''
   \<and> OpenReader Background sch_prompt fs_two (u_file ''/d/gone'') = Some (Inl ENOENT)
   \<and> child_report (env_sample (\<lambda>w n. None) [''a.txt'', ''gone'']) Background 3 (u_file ''/d/'')
        ''gone'' (Callback 3 (u_file ''/d/gone'') None)
   \<and> (\<exists>fw tr. NewFileWatcher (env_sample (\<lambda>w n. None) [''a.txt'', ''gone'']) Background
                  (u_file ''/d'') 3 = Some (Inr fw, tr)
              \<and> list_all2 (child_report (env_sample (\<lambda>w n. None) [''a.txt'', ''gone''])
                             Background 3 (u_file ''/d/''))
                   [''a.txt'', ''gone''] (filter is_Callback tr)
              \<and> (\<forall>err. SendError err \<notin> set tr))"
proof -
  let ?e = "env_sample (\<lambda>w n. None) [''a.txt'', ''gone'']"
  have 1: "fsnotify_NewWatcher ?e = Inr 7" by (simp add: env_sample_fields)
  have 2: "os_Stat ?e (Path (u_file ''/d'')) = Inr \<lparr>Mode = os_ModeDir\<rparr>"
    by (simp add: env_sample_fields Path_u_file)
  have 4: "watcher_Add ?e 7 (Path (u_file ''/d'')) = None" by (simp add: env_sample_fields)
  have 6: "url_Parse ?e (u_file ''/d'') (Path (u_file ''/d'') @ ''/'') = Inr (u_file ''/d/'')"
    by (simp add: env_sample_fields Path_u_file)
  have 7: "os_Open (fsys ?e) (Path (u_file ''/d''))
             = Inr \<lparr>fname = ''/d'', pos = 0, wronly = False, append = False\<rparr>"
    by (simp add: env_sample_fields Path_u_file os_Open_d)
  have 8: "Readdirnames ?e \<lparr>fname = ''/d'', pos = 0, wronly = False, append = False\<rparr>
             = Inr [''a.txt'', ''gone'']"
    by (simp add: env_sample_fields)
  have c: "child_report ?e Background 3 (u_file ''/d/'') ''gone'' (Callback 3 (u_file ''/d/gone'') None)"
    by (simp add: child_report_def env_sample_fields OpenReader_gone Path_u_file)
  from child_opened_gone[of "\<lambda>w n. None"]
  have g: "child_opened ?e Background (u_file ''/d/'') ''a.txt''"
          "child_opened ?e Background (u_file ''/d/'') ''gone''"
    by simp_all
  from open_error_discarded[OF 1 2 resolve_d 4 IsDir_d 6 7 8 child_opened_gone, of 3]
    IsDir_d g OpenReader_gone c
  show ?thesis by blast
qed

subsection \<open>The events the loop acts on\<close>

lemma watchForChanges_shutdown:
  "shutdown f \<Longrightarrow> watchForChanges e f evs = Some []"
  by (cases evs) auto

text \<open>
  C7: for an event whose operation has none of the bits write, remove and rename the body
  of the loop does nothing: no open, no callback, no error; so it does for an event that
  is a create only; and the actions of the loop on a sequence of events are its actions
  on the events that have one of the three bits (and on those at which the flag is seen).
\<close>

theorem only_write_remove_rename:
  "(Op event AND (fsnotify_Write OR fsnotify_Remove OR fsnotify_Rename) = 0
       \<longrightarrow> dispatch e f event = Some [])
   \<and> dispatch e f \<lparr>Name = n, Op = fsnotify_Create\<rparr> = Some []
   \<and> watchForChanges e f evs
       = watchForChanges e f
           (filter (\<lambda>(sd, ev). sd \<or> Op ev AND (fsnotify_Write OR fsnotify_Remove OR fsnotify_Rename) \<noteq> 0)
              evs)"
proof -
  have a: "dispatch e f event = Some []"
    if "Op event AND (fsnotify_Write OR fsnotify_Remove OR fsnotify_Rename) = 0" for event
    using that by (simp add: dispatch_def)
  have "fsnotify_Create AND (fsnotify_Write OR fsnotify_Remove OR fsnotify_Rename) = 0"
    by (simp add: fsnotify_Create_def fsnotify_Write_def fsnotify_Remove_def fsnotify_Rename_def)
  then have b: "dispatch e f \<lparr>Name = n, Op = fsnotify_Create\<rparr> = Some []"
    by (simp add: a)
  have c: "watchForChanges e f evs
       = watchForChanges e f
           (filter (\<lambda>(sd, ev). sd \<or> Op ev AND (fsnotify_Write OR fsnotify_Remove OR fsnotify_Rename) \<noteq> 0)
              evs)"
  proof (induction evs)
    case Nil
    show ?case by simp
  next
    case (Cons x evs)
    obtain sd ev where x: "x = (sd, ev)" by (cases x)
    show ?case
    proof (cases "shutdown f")
      case True
      then show ?thesis by (simp add: watchForChanges_shutdown)
    next
      case live: False
      show ?thesis
      proof (cases "sd \<or> Op ev AND (fsnotify_Write OR fsnotify_Remove OR fsnotify_Rename) \<noteq> 0")
        case True
        with Cons.IH x show ?thesis by (cases "dispatch e f ev") simp_all
      next
        case False
        then have "dispatch e f ev = Some []" by (simp add: a)
        with False live Cons.IH x show ?thesis by (simp split: option.splits)
      qed
    qed
  qed
  from a b c show ?thesis by blast
qed

theorem only_write_remove_rename_witness:
  "Op \<lparr>Name = ''/d/a.txt'', Op = fsnotify_Chmod\<rparr>
     AND (fsnotify_Write OR fsnotify_Remove OR fsnotify_Rename) = 0
   \<and> dispatch env_two (fw_two ''/d'') \<lparr>Name = ''/d/a.txt'', Op = fsnotify_Chmod\<rparr> = Some []
   \<and> dispatch env_two (fw_two ''/d'') \<lparr>Name = ''/d/a.txt'', Op = fsnotify_Create\<rparr> = Some []
   \<and> dispatch env_two (fw_two ''/d'') \<lparr>Name = ''/d/a.txt'', Op = fsnotify_Write\<rparr>
       = Some [OpenReaderCall (u_file ''/d/a.txt''),
               GoCallback 3 (u_file ''/d/a.txt'') (rd_file ''/d/a.txt'')]
   \<and> watchForChanges env_two (fw_two ''/d'')
        [(False, \<lparr>Name = ''/d/a.txt'', Op = fsnotify_Create\<rparr>),
         (False, \<lparr>Name = ''/d/a.txt'', Op = fsnotify_Write\<rparr>)]
       = Some [OpenReaderCall (u_file ''/d/a.txt''),
               GoCallback 3 (u_file ''/d/a.txt'') (rd_file ''/d/a.txt'')]"
proof -
  have m: "fsnotify_Chmod AND (fsnotify_Write OR fsnotify_Remove OR fsnotify_Rename) = 0"
          "fsnotify_Create AND (fsnotify_Write OR fsnotify_Remove OR fsnotify_Rename) = 0"
          "fsnotify_Write AND (fsnotify_Write OR fsnotify_Remove OR fsnotify_Rename) \<noteq> 0"
          "fsnotify_Write \<noteq> 0"
    by (simp_all add: fsnotify_Chmod_def fsnotify_Create_def fsnotify_Write_def
          fsnotify_Remove_def fsnotify_Rename_def)
  have p: "url_Parse env_two (u_file ''/d'') ''/d/a.txt'' = Inr (u_file ''/d/a.txt'')"
    by (simp add: env_two_def env_sample_def u_file_def)
  have w: "dispatch env_two (fw_two ''/d'') \<lparr>Name = ''/d/a.txt'', Op = fsnotify_Write\<rparr>
             = Some [OpenReaderCall (u_file ''/d/a.txt''),
                     GoCallback 3 (u_file ''/d/a.txt'') (rd_file ''/d/a.txt'')]"
    by (simp add: dispatch_def m fw_two_def p env_two_def[symmetric])
       (simp add: env_two_def env_sample_fields OpenReader_two Path_u_file)
  have l: "watchForChanges env_two (fw_two ''/d'')
             [(False, \<lparr>Name = ''/d/a.txt'', Op = fsnotify_Write\<rparr>)]
           = Some [OpenReaderCall (u_file ''/d/a.txt''),
                   GoCallback 3 (u_file ''/d/a.txt'') (rd_file ''/d/a.txt'')]"
    by (simp add: w) (simp add: fw_two_def)
  from only_write_remove_rename[of "\<lparr>Name = ''/d/a.txt'', Op = fsnotify_Chmod\<rparr>" env_two
      "fw_two ''/d''" "''/d/a.txt''"
      "[(False, \<lparr>Name = ''/d/a.txt'', Op = fsnotify_Create\<rparr>),
        (False, \<lparr>Name = ''/d/a.txt'', Op = fsnotify_Write\<rparr>)]"]
    m w l
  show ?thesis by simp
qed

subsection \<open>Failures of the setup\<close>

text \<open>
  Whatever a run of \<open>NewFileWatcher\<close> returns, once the watcher was created the run does
  not close it.
\<close>

lemma NewFileWatcher_holds_watcher:
  assumes "NewFileWatcher e ctx p cbf = Some (res, tr)" and "fsnotify_NewWatcher e = Inr w"
  shows "holds_watcher w tr"
proof -
  have "\<And>a. is_scan a \<Longrightarrow> a \<noteq> WatcherClose w" by auto
  with assms show ?thesis
    unfolding NewFileWatcher_def holds_watcher_def Let_def
    by (auto split: sum.splits option.splits prod.splits dest!: initial_scan_scan)
qed

text \<open>
  C8 says that a failure of the setup after the creation of the watcher closes the
  watcher. On a path that does not exist \<open>os.Stat\<close> fails; \<open>NewFileWatcher\<close> returns the
  error, its only action is the creation of watcher 7, and watcher 7 is still held.
\<close>

theorem setup_failure_keeps_watcher:
  "NewFileWatcher env_two Background (u_file ''/missing'') 3 = Some (Inl ENOENT, [NewWatcher 7])
   \<and> holds_watcher 7 [NewWatcher 7]"
  by (simp add: NewFileWatcher_def env_two_def env_sample_fields Path_u_file holds_watcher_def)

subsection \<open>Shutdown\<close>

text \<open>
  \<open>Shutdown\<close> always sets the flag. When the removal of the watch succeeds it removes
  the watch and closes the watcher; when the removal fails it does nothing else.
\<close>

lemma Shutdown_sets_flag:
  "shutdown (fst (snd (Shutdown e f)))"
  by (simp add: Shutdown_def Let_def split: option.splits)

lemma Shutdown_releases:
  "watcher_Remove e (watcher f) (Path (path f)) = None \<Longrightarrow>
     Shutdown e f = (watcher_Close e (watcher f), f\<lparr>shutdown := True\<rparr>,
                     [WatcherRemove (watcher f) (Path (path f)), WatcherClose (watcher f)])"
  by (simp add: Shutdown_def)

lemma Shutdown_Remove_fails:
  "watcher_Remove e (watcher f) (Path (path f)) = Some err \<Longrightarrow>
     Shutdown e f = (Some err, f\<lparr>shutdown := True\<rparr>, [])"
  by (simp add: Shutdown_def)

text \<open>
  C9 says that \<open>Shutdown\<close> releases the watch and the watcher even when a step reports
  an error. After the setup on the sample directory, with a watcher whose \<open>Remove\<close>
  fails, \<open>Shutdown\<close> returns that error with the flag set and no action: watcher 7 and
  its watch on the directory are still held.
\<close>

theorem Shutdown_keeps_watcher:
  "NewFileWatcher (env_sample rm_fails [''a.txt'', ''b.txt'']) Background (u_file ''/d'') 3
     = Some (Inr (fw_two ''/d''), tr_two)
   \<and> Shutdown (env_sample rm_fails [''a.txt'', ''b.txt'']) (fw_two ''/d'')
       = (Some (OtherError ''remove failed''), (fw_two ''/d'')\<lparr>shutdown := True\<rparr>, [])
   \<and> holds_watcher 7 (tr_two @ [])
   \<and> holds_watch 7 ''/d'' (tr_two @ [])"
proof -
  have "Shutdown (env_sample rm_fails [''a.txt'', ''b.txt'']) (fw_two ''/d'')
       = (Some (OtherError ''remove failed''), (fw_two ''/d'')\<lparr>shutdown := True\<rparr>, [])"
    by (simp add: Shutdown_def env_sample_fields rm_fails_def)
  moreover have "holds_watcher 7 (tr_two @ [])" "holds_watch 7 ''/d'' (tr_two @ [])"
    by (simp_all add: holds_watcher_def holds_watch_def tr_two_def)
  ultimately show ?thesis using NewFileWatcher_two[of rm_fails] by simp
qed

end
